theory Spec2Isabelle
  imports Complex_Main "HOL-Library.Sublist"
begin

section \<open>The Jubilee controller: machine communication and motion safety\<close>

text \<open>
  A shallow embedding of \<^verbatim>\<open>src/science_jubilee/JubileeController.py\<close>.
  Every method of the class that the properties below talk about is a function on an
  explicit controller state. Three things the Python leaves implicit are explicit here:
  \<^item> the board on the other side of the HTTP connection is a parameter (\<open>board\<close>): for
    every command it says what each HTTP request of the exchange does;
  \<^item> the commands handed to the transport are recorded in the field \<open>wire\<close>, so that
    "which commands were sent, in which order" is a value;
  \<^item> a call either returns, raises, or never returns (the polling loop of \<open>gcode\<close>
    has no other exit than a changed counter, a timeout or an exception).
  A Python float is a value of \<open>pyfloat\<close>: a finite value, negative zero, an infinity
  or NaN. Adding two floats rounds the exact sum to binary64; the rounding is a
  parameter (\<open>round64\<close>). An \<^verbatim>\<open>int\<close> passed where the code expects a float stands for
  the float it converts to.
\<close>

subsection \<open>Values, exceptions and outcomes\<close>

text \<open>A decoded JSON document, with the truth value Python gives it.\<close>

datatype json =
    JNull
  | JBool bool
  | JNum real
  | JStr string
  | JArr "json list"
  | JObj "(string \<times> json) list"

fun truthy :: "json \<Rightarrow> bool" where
  "truthy JNull = False"
| "truthy (JBool b) = b"
| "truthy (JNum r) = (r \<noteq> 0)"
| "truthy (JStr s) = (s \<noteq> [])"
| "truthy (JArr xs) = (xs \<noteq> [])"
| "truthy (JObj kvs) = (kvs \<noteq> [])"

text \<open>
  Python floats. \<open>Fin r\<close> is the finite float whose value is \<open>r\<close> (positive zero for
  \<open>r = 0\<close>), \<open>NegZero\<close> is \<^verbatim>\<open>-0.0\<close>.
\<close>

datatype pyfloat = Fin real | NegZero | PInf | NInf | NaN

fun fval :: "pyfloat \<Rightarrow> real" where
  "fval (Fin r) = r"
| "fval f = 0"

text \<open>\<^verbatim>\<open>a <= b\<close> on floats: false as soon as one side is NaN.\<close>

fun fle :: "pyfloat \<Rightarrow> pyfloat \<Rightarrow> bool" where
  "fle NaN b = False"
| "fle a NaN = False"
| "fle NInf b = True"
| "fle a PInf = True"
| "fle PInf b = False"
| "fle a NInf = False"
| "fle a b = (fval a \<le> fval b)"

text \<open>
  \<^verbatim>\<open>a + b\<close> on floats, where \<open>rnd\<close> takes the exact sum of two finite floats to the
  float Python returns (the nearest binary64 value, an infinity on overflow).
\<close>

fun float_add :: "(real \<Rightarrow> pyfloat) \<Rightarrow> pyfloat \<Rightarrow> pyfloat \<Rightarrow> pyfloat" where
  "float_add rnd NaN b = NaN"
| "float_add rnd a NaN = NaN"
| "float_add rnd PInf NInf = NaN"
| "float_add rnd NInf PInf = NaN"
| "float_add rnd PInf b = PInf"
| "float_add rnd a PInf = PInf"
| "float_add rnd NInf b = NInf"
| "float_add rnd a NInf = NInf"
| "float_add rnd NegZero NegZero = NegZero"
| "float_add rnd a b = rnd (fval a + fval b)"

text \<open>
  The exceptions of \<^verbatim>\<open>utils/exceptions.py\<close> that the controller raises, each with
  the message of its raise site, and the exceptions of the libraries underneath:
  \<open>RequestException\<close> is \<^verbatim>\<open>requests.RequestException\<close>, \<open>OtherException\<close> any other
  exception that is not one of the Jubilee classes (\<^verbatim>\<open>TypeError\<close>, \<^verbatim>\<open>KeyError\<close>,
  \<^verbatim>\<open>IndexError\<close>, a JSON decoding error, ...). \<open>MoveExceedsLimit relative axis lo hi\<close> is
  \<^verbatim>\<open>JubileeStateError(f"{kind} move exceeds {axis} axis limit ({lo}-{hi} mm)")\<close>.
  \<open>GcodeCommunicationFailed e\<close> is \<^verbatim>\<open>JubileeCommunicationError(f"G-code communication failed: {e}") from e\<close>.
\<close>

datatype state_message =
    CrashDetected
  | UnableToCheckHoming
  | MustBeHomed
  | MoveExceedsLimit bool string pyfloat pyfloat
  | NoParkingPosition int

datatype homing_message =
    FailedToHome string
  | FailedToHomeXYU

datatype error =
    JubileeStateError state_message
  | JubileeConfigurationError
  | JubileeCommunicationError communication_message
  | JubileeHomingError homing_message
  | RequestException
  | OtherException
and communication_message =
    NotConnected
  | TimeoutWaitingForReply
  | GcodeCommunicationFailed error
  | NoValidPositionResponse

datatype 'a outcome = Returns 'a | Raises error | Hangs

subsection \<open>The controller state and its environment\<close>

record parking =
  x_park :: pyfloat
  y_clear :: pyfloat
  y_park :: pyfloat
  z_park :: pyfloat

text \<open>
  The attributes of \<^verbatim>\<open>JubileeController\<close>. \<open>session\<close> is \<^verbatim>\<open>self.session is not None\<close>;
  \<open>axis_limits\<close> is \<^verbatim>\<open>self._axis_limits\<close> (\<open>None\<close> until \<^verbatim>\<open>connect()\<close> has filled it);
  \<open>axes_homed\<close> holds whatever the board's JSON reply held. \<open>wire\<close> is not an attribute
  of the class: it lists the commands passed to the HTTP session so far.
\<close>

record machine =
  simulated :: bool
  session :: bool
  crash_detection :: bool
  absolute_positioning :: bool
  axis_limits :: "(pyfloat \<times> pyfloat) option list option"
  axes_homed :: "json list"
  tool_parking_positions :: "int \<rightharpoonup> parking"
  wire :: "string list"

text \<open>
  What the HTTP layer does during one call of \<^verbatim>\<open>gcode\<close>:
  \<^item> \<open>post_reply\<close>: \<^verbatim>\<open>session.post(".../machine/code", data=cmd).text\<close>;
  \<^item> \<open>seq_before\<close>: \<^verbatim>\<open>session.get(".../rr_model?key=seqs").json()["result"]["reply"]\<close>
    before the command is submitted;
  \<^item> \<open>submit\<close>: \<^verbatim>\<open>session.get(".../rr_gcode?gcode=" + cmd)\<close>;
  \<^item> \<open>polls\<close>: for each turn of the polling loop, the counter read in that turn and
    the value of \<^verbatim>\<open>time.time() - tic\<close> at its timeout test;
  \<^item> \<open>rr_reply\<close>: \<^verbatim>\<open>session.get(".../rr_reply").text\<close>.
  \<open>Inl e\<close> is the exception the request raised.
\<close>

record exchange =
  post_reply :: "error + string"
  seq_before :: "error + int"
  submit :: "error + unit"
  polls :: "((error + int) \<times> real) list"
  rr_reply :: "error + string"

text \<open>
  The environment: the board (its behaviour may depend on the commands it has received
  so far), the library functions \<^verbatim>\<open>json.loads\<close>, \<^verbatim>\<open>float\<close> and \<^verbatim>\<open>str\<close>, where \<open>None\<close>
  is the exception they raise on text they do not accept, and the rounding of binary64
  addition.
\<close>

record world =
  board :: "string list \<Rightarrow> string \<Rightarrow> exchange"
  json_loads :: "string \<Rightarrow> json option"
  py_float :: "string \<Rightarrow> pyfloat option"
  py_str :: "pyfloat option \<Rightarrow> string"
  round64 :: "real \<Rightarrow> pyfloat"

type_synonym 'a action = "machine \<Rightarrow> 'a outcome \<times> machine"

definition ret :: "'a \<Rightarrow> 'a action" where
  "ret a = (\<lambda>c. (Returns a, c))"

definition raise :: "error \<Rightarrow> 'a action" where
  "raise e = (\<lambda>c. (Raises e, c))"

text \<open>One statement after another: the second runs only when the first has returned.\<close>

definition then_do :: "'a action \<Rightarrow> ('a \<Rightarrow> 'b action) \<Rightarrow> 'b action" where
  "then_do m f = (\<lambda>c. case m c of
      (Returns a, c') \<Rightarrow> f a c'
    | (Raises e, c') \<Rightarrow> (Raises e, c')
    | (Hangs, c') \<Rightarrow> (Hangs, c'))"

text \<open>\<^verbatim>\<open>try: m  except Exception as e: h(e)\<close>\<close>

definition except_as :: "'a action \<Rightarrow> (error \<Rightarrow> 'a action) \<Rightarrow> 'a action" where
  "except_as m h = (\<lambda>c. case m c of
      (Returns a, c') \<Rightarrow> (Returns a, c')
    | (Raises e, c') \<Rightarrow> h e c'
    | (Hangs, c') \<Rightarrow> (Hangs, c'))"

subsection \<open>Text\<close>

text \<open>\<^verbatim>\<open>sub in s\<close>\<close>

fun contains :: "string \<Rightarrow> string \<Rightarrow> bool" where
  "contains sub [] = (sub = [])"
| "contains sub (c # cs) = (prefix sub (c # cs) \<or> contains sub cs)"

subsection \<open>Sending a command: \<^verbatim>\<open>gcode\<close>\<close>

text \<open>
  The polling loop of the fallback path:
  \<^verbatim>\<open>
  while True:
      new_count = self.session.get(".../rr_model?key=seqs").json()["result"]["reply"]
      if new_count != reply_count:
          response = self.session.get(".../rr_reply").text
          if self.crash_detection and "crash detected" in response:
              raise JubileeStateError("Crash detected during G-code execution!")
          return response
      if time.time() - tic > response_wait:
          raise JubileeCommunicationError("Timeout waiting for G-code reply.")
      time.sleep(...)
  \<close>
  When the list of observations is used up the loop is still polling.
\<close>

fun poll_loop ::
  "bool \<Rightarrow> real \<Rightarrow> int \<Rightarrow> (error + string) \<Rightarrow> ((error + int) \<times> real) list \<Rightarrow> string outcome"
where
  "poll_loop cd response_wait reply_count rr [] = Hangs"
| "poll_loop cd response_wait reply_count rr ((count, elapsed) # ps) =
    (case count of
       Inl e \<Rightarrow> Raises e
     | Inr new_count \<Rightarrow>
         if new_count \<noteq> reply_count then
           (case rr of
              Inl e \<Rightarrow> Raises e
            | Inr response \<Rightarrow>
                if cd \<and> contains ''crash detected'' response
                then Raises (JubileeStateError CrashDetected)
                else Returns response)
         else if elapsed > response_wait
           then Raises (JubileeCommunicationError TimeoutWaitingForReply)
         else poll_loop cd response_wait reply_count rr ps)"

text \<open>
  The second \<^verbatim>\<open>try\<close> block of \<^verbatim>\<open>gcode\<close>: everything up to and including the loop, and
  its handler \<^verbatim>\<open>except Exception as e: raise JubileeCommunicationError(...) from e\<close>, which
  catches whatever the block raises.
\<close>

definition fallback_body :: "bool \<Rightarrow> real \<Rightarrow> exchange \<Rightarrow> string outcome" where
  "fallback_body cd response_wait x =
    (case seq_before x of
       Inl e \<Rightarrow> Raises e
     | Inr reply_count \<Rightarrow>
         (case submit x of
            Inl e \<Rightarrow> Raises e
          | Inr u \<Rightarrow> poll_loop cd response_wait reply_count (rr_reply x) (polls x)))"

definition fallback :: "bool \<Rightarrow> real \<Rightarrow> exchange \<Rightarrow> string outcome" where
  "fallback cd response_wait x =
    (case fallback_body cd response_wait x of
       Returns response \<Rightarrow> Returns response
     | Raises e \<Rightarrow> Raises (JubileeCommunicationError (GcodeCommunicationFailed e))
     | Hangs \<Rightarrow> Hangs)"

text \<open>
  The first \<^verbatim>\<open>try\<close> block: the reply of \<^verbatim>\<open>/machine/code\<close> is returned unless it contains
  \<^verbatim>\<open>rejected\<close>; only \<^verbatim>\<open>requests.RequestException\<close> is caught, any other exception leaves
  \<^verbatim>\<open>gcode\<close> as it is.
\<close>

definition transport :: "bool \<Rightarrow> real \<Rightarrow> exchange \<Rightarrow> string outcome" where
  "transport cd response_wait x =
    (case post_reply x of
       Inr response \<Rightarrow>
         if \<not> contains ''rejected'' response then Returns response
         else fallback cd response_wait x
     | Inl e \<Rightarrow>
         if e = RequestException then fallback cd response_wait x else Raises e)"

definition simulated_reply :: "string \<Rightarrow> string" where
  \<open>simulated_reply cmd =
    (if prefix ''M409'' cmd then ''{"result": [true, true, true, true]}''
     else if prefix ''M114'' cmd then ''X:0.00 Y:0.00 Z:0.00 U:0.00 Count 0 0 0 0''
     else if prefix ''M119'' cmd
       then ''X: open'' @ [CHR 0x0A] @ ''Y: open'' @ [CHR 0x0A] @ ''Z: open'' @ [CHR 0x0A] @ ''U: open''
     else [])\<close>

definition gcode :: "world \<Rightarrow> string \<Rightarrow> real \<Rightarrow> string action" where
  "gcode w cmd response_wait = (\<lambda>c.
     if simulated c then (Returns (simulated_reply cmd), c)
     else if \<not> session c then (Raises (JubileeCommunicationError NotConnected), c)
     else (transport (crash_detection c) response_wait (board w (wire c) cmd),
           c\<lparr>wire := wire c @ [cmd]\<rparr>))"

subsection \<open>Decoding replies\<close>

text \<open>
  \<^verbatim>\<open>doc[key]\<close> and \<^verbatim>\<open>doc[i]\<close> on a decoded JSON value; \<open>None\<close> is the \<^verbatim>\<open>KeyError\<close>,
  \<^verbatim>\<open>IndexError\<close> or \<^verbatim>\<open>TypeError\<close> Python raises. A \<open>JObj\<close> holds the items of a Python
  dict, so its keys are distinct.
\<close>

fun subscript_key :: "json \<Rightarrow> string \<Rightarrow> json option" where
  "subscript_key (JObj kvs) k = map_of kvs k"
| "subscript_key v k = None"

fun subscript_index :: "json \<Rightarrow> nat \<Rightarrow> json option" where
  "subscript_index (JArr xs) i = (if i < length xs then Some (xs ! i) else None)"
| "subscript_index (JStr s) i = (if i < length s then Some (JStr [s ! i]) else None)"
| "subscript_index v i = None"

text \<open>\<^verbatim>\<open>v[:4]\<close>, as the list of its elements; \<open>None\<close> where Python cannot slice \<open>v\<close>.\<close>

fun first_four :: "json \<Rightarrow> json list option" where
  "first_four (JArr xs) = Some (take 4 xs)"
| "first_four (JStr s) = Some (map (\<lambda>ch. JStr [ch]) (take 4 s))"
| "first_four v = None"

definition homed_query :: string where
  \<open>homed_query = ''M409 K"move.axes[].homed"''\<close>

text \<open>\<^verbatim>\<open>json.loads(self.gcode('M409 K"move.axes[].homed"'))["result"]\<close>\<close>

definition query_homed :: "world \<Rightarrow> json action" where
  "query_homed w =
     then_do (gcode w homed_query 60) (\<lambda>reply.
       case json_loads w reply of
         None \<Rightarrow> raise OtherException
       | Some doc \<Rightarrow>
           (case subscript_key doc ''result'' of
              None \<Rightarrow> raise OtherException
            | Some v \<Rightarrow> ret v))"

subsection \<open>The homing gate: \<^verbatim>\<open>machine_homed\<close>\<close>

text \<open>
  \<^verbatim>\<open>
  def homing_check(self, *args, **kwds):
      if self.simulated:
          return func(self, *args, **kwds)
      try:
          axes_homed = json.loads(self.gcode('M409 K"move.axes[].homed"'))["result"]
      except Exception as e:
          raise JubileeStateError("Unable to check homing state.") from e
      if not all(axes_homed[:4]):
          raise JubileeStateError("Error: The machine must be homed (X, Y, Z, U) before this operation.")
      return func(self, *args, **kwds)
  \<close>
\<close>

definition machine_homed :: "world \<Rightarrow> 'a action \<Rightarrow> 'a action" where
  "machine_homed w func = (\<lambda>c.
     if simulated c then func c
     else
       then_do
         (except_as (query_homed w) (\<lambda>e. raise (JubileeStateError UnableToCheckHoming)))
         (\<lambda>homed. case first_four homed of
              None \<Rightarrow> raise OtherException
            | Some flags \<Rightarrow>
                if \<not> list_all truthy flags then raise (JubileeStateError MustBeHomed)
                else func) c)"

subsection \<open>Positioning mode and homing\<close>

definition set_absolute_positioning :: "world \<Rightarrow> unit action" where
  "set_absolute_positioning w = (\<lambda>c.
     if simulated c then (Returns (), c\<lparr>absolute_positioning := True\<rparr>)
     else then_do (gcode w ''G90'' 60)
            (\<lambda>r c'. (Returns (), c'\<lparr>absolute_positioning := True\<rparr>)) c)"

definition set_relative_positioning :: "world \<Rightarrow> unit action" where
  "set_relative_positioning w = (\<lambda>c.
     if simulated c then (Returns (), c\<lparr>absolute_positioning := False\<rparr>)
     else then_do (gcode w ''G91'' 60)
            (\<lambda>r c'. (Returns (), c'\<lparr>absolute_positioning := False\<rparr>)) c)"

text \<open>\<^verbatim>\<open>self.axes_homed[i] = True\<close>: an \<^verbatim>\<open>IndexError\<close> when the list is too short.\<close>

definition set_homed :: "nat \<Rightarrow> unit action" where
  "set_homed i = (\<lambda>c.
     if i < length (axes_homed c)
     then (Returns (), c\<lparr>axes_homed := (axes_homed c)[i := JBool True]\<rparr>)
     else (Raises OtherException, c))"

text \<open>
  \<^verbatim>\<open>_home_x\<close>, \<^verbatim>\<open>_home_y\<close> and \<^verbatim>\<open>_home_u\<close> differ in the axis letter and the index only:
  \<^verbatim>\<open>
  if self.simulated:
      self.axes_homed[i] = True
      return
  try:
      self.gcode("G28 " + axis)
      self.axes_homed[i] = True
  except Exception as e:
      raise JubileeHomingError("Failed to home " + axis + " axis.") from e
  \<close>
\<close>

definition home_axis :: "world \<Rightarrow> string \<Rightarrow> nat \<Rightarrow> unit action" where
  "home_axis w axis i = (\<lambda>c.
     if simulated c then set_homed i c
     else except_as
            (then_do (gcode w (''G28 '' @ axis) 60) (\<lambda>r. set_homed i))
            (\<lambda>e. raise (JubileeHomingError (FailedToHome axis))) c)"

definition home_x :: "world \<Rightarrow> unit action" where
  "home_x w = home_axis w ''X'' 0"

definition home_y :: "world \<Rightarrow> unit action" where
  "home_y w = home_axis w ''Y'' 1"

definition home_u :: "world \<Rightarrow> unit action" where
  "home_u w = home_axis w ''U'' 3"

text \<open>
  \<^verbatim>\<open>
  def home_xyu(self):
      if self.simulated:
          self.axes_homed = [True, True, True, True]
          return
      try:
          self._home_u()
          self._home_y()
          self._home_x()
          self._set_absolute_positioning()
          homed_status = json.loads(self.gcode('M409 K"move.axes[].homed"'))["result"]
          self.axes_homed = [True, True, homed_status[2], True]
      except Exception as e:
          raise JubileeHomingError("Failed to home XYU axes.") from e
  \<close>
\<close>

definition home_xyu :: "world \<Rightarrow> unit action" where
  "home_xyu w = (\<lambda>c.
     if simulated c
     then (Returns (), c\<lparr>axes_homed := [JBool True, JBool True, JBool True, JBool True]\<rparr>)
     else except_as
            (then_do (home_u w) (\<lambda>r1.
             then_do (home_y w) (\<lambda>r2.
             then_do (home_x w) (\<lambda>r3.
             then_do (set_absolute_positioning w) (\<lambda>r4.
             then_do (query_homed w) (\<lambda>homed_status.
               case subscript_index homed_status 2 of
                 None \<Rightarrow> raise OtherException
               | Some zh \<Rightarrow>
                   (\<lambda>c'. (Returns (),
                          c'\<lparr>axes_homed := [JBool True, JBool True, zh, JBool True]\<rparr>))))))))
            (\<lambda>e. raise (JubileeHomingError FailedToHomeXYU)) c)"

subsection \<open>Reading the position: \<^verbatim>\<open>get_position\<close>\<close>

text \<open>
  \<^verbatim>\<open>s.split(sep, 1)[0]\<close> for a non-empty \<open>sep\<close>: the text before the first occurrence of
  \<open>sep\<close>, all of \<open>s\<close> when there is none.
\<close>

fun before_first :: "string \<Rightarrow> string \<Rightarrow> string" where
  "before_first sep [] = []"
| "before_first sep (c # cs) = (if prefix sep (c # cs) then [] else c # before_first sep cs)"

text \<open>\<^verbatim>\<open>s.split(sep, 1)[1]\<close> when \<open>sep\<close> occurs in \<open>s\<close>.\<close>

fun after_first :: "string \<Rightarrow> string \<Rightarrow> string" where
  "after_first sep [] = []"
| "after_first sep (c # cs) =
     (if prefix sep (c # cs) then drop (length sep) (c # cs) else after_first sep cs)"

text \<open>The characters below 256 that \<^verbatim>\<open>str.split()\<close> treats as white space.\<close>

definition whitespace :: "char list" where
  "whitespace = [CHR 0x09, CHR 0x0A, CHR 0x0B, CHR 0x0C, CHR 0x0D, CHR 0x1C, CHR 0x1D,
                 CHR 0x1E, CHR 0x1F, CHR 0x20, CHR 0x85, CHR 0xA0]"

text \<open>\<^verbatim>\<open>s.split()\<close>: the maximal runs of characters that are not white space.\<close>

fun split_acc :: "string \<Rightarrow> string \<Rightarrow> string list" where
  "split_acc cur [] = (if cur = [] then [] else [cur])"
| "split_acc cur (c # cs) =
     (if c \<in> set whitespace
      then (if cur = [] then split_acc [] cs else cur # split_acc [] cs)
      else split_acc (cur @ [c]) cs)"

definition split_whitespace :: "string \<Rightarrow> string list" where
  "split_whitespace s = split_acc [] s"

text \<open>
  \<^verbatim>\<open>
  positions = {}
  for element in response.split():
      if ":" in element:
          axis, pos_str = element.split(":", 1)
          try:
              positions[axis] = float(pos_str)
          except ValueError:
              positions[axis] = None
  \<close>
  The dictionary maps an axis to a float or to \<^verbatim>\<open>None\<close>: \<open>positions a = None\<close> says that
  \<open>a\<close> is not a key, \<open>positions a = Some None\<close> that it is a key whose value is \<^verbatim>\<open>None\<close>.
\<close>

fun parse_elements ::
  "(string \<Rightarrow> pyfloat option) \<Rightarrow> (string \<rightharpoonup> pyfloat option) \<Rightarrow> string list \<Rightarrow>
   (string \<rightharpoonup> pyfloat option)"
where
  "parse_elements to_float positions [] = positions"
| "parse_elements to_float positions (element # rest) =
     (if CHR '':'' \<in> set element
      then parse_elements to_float
             (positions(before_first '':'' element \<mapsto> to_float (after_first '':'' element))) rest
      else parse_elements to_float positions rest)"

text \<open>
  What \<^verbatim>\<open>get_position\<close> makes of a reply it has accepted:
  \<^verbatim>\<open>response = response.split(" Count ", 1)[0]\<close>, then the loop above. (The handler
  \<^verbatim>\<open>except IndexError\<close> around the split is never entered: the list \<^verbatim>\<open>split\<close> returns has
  a first element.)
\<close>

definition parse_position ::
  "(string \<Rightarrow> pyfloat option) \<Rightarrow> string \<Rightarrow> (string \<rightharpoonup> pyfloat option)"
where
  "parse_position to_float response =
     parse_elements to_float Map.empty (split_whitespace (before_first '' Count '' response))"

text \<open>
  \<^verbatim>\<open>
  for _ in range(max_tries):
      response = self.gcode("M114")
      if "Count" in response:
          break
      time.sleep(0.05)
  else:
      raise JubileeCommunicationError("Failed to get valid position response after max retries.")
  \<close>
\<close>

fun position_response :: "world \<Rightarrow> nat \<Rightarrow> string action" where
  "position_response w 0 = raise (JubileeCommunicationError NoValidPositionResponse)"
| "position_response w (Suc n) =
     then_do (gcode w ''M114'' 60) (\<lambda>response.
       if contains ''Count'' response then ret response else position_response w n)"

definition get_position :: "world \<Rightarrow> (string \<rightharpoonup> pyfloat option) action" where
  "get_position w = (\<lambda>c.
     if simulated c
     then (Returns [''X'' \<mapsto> Some (Fin 0), ''Y'' \<mapsto> Some (Fin 0), ''Z'' \<mapsto> Some (Fin 0),
                    ''U'' \<mapsto> Some (Fin 0)], c)
     else then_do (position_response w 50)
            (\<lambda>response. ret (parse_position (py_float w) response)) c)"

subsection \<open>Axis limits: \<^verbatim>\<open>_check_axis_limits\<close>\<close>

text \<open>
  The loop over the target:
  \<^verbatim>\<open>
  for axis, value in target.items():
      if value is None or axis not in limits or limits[axis] is None:
          continue
      test_value = float(pos[axis]) + value if relative else value
      if not limits[axis][0] <= test_value <= limits[axis][1]:
          raise JubileeStateError(f"{kind} move exceeds {axis} axis limit (...)")
  \<close>
  \<^verbatim>\<open>pos[axis]\<close> raises \<^verbatim>\<open>KeyError\<close> when the position has no such axis, and \<^verbatim>\<open>float(None)\<close>
  raises \<^verbatim>\<open>TypeError\<close>. The sum is a float sum and the comparisons are float
  comparisons.
\<close>

fun check_targets ::
  "(real \<Rightarrow> pyfloat) \<Rightarrow> (string \<rightharpoonup> (pyfloat \<times> pyfloat) option) \<Rightarrow>
   (string \<rightharpoonup> pyfloat option) \<Rightarrow> bool \<Rightarrow> (string \<times> pyfloat option) list \<Rightarrow> unit outcome"
where
  "check_targets rnd limits pos relative [] = Returns ()"
| "check_targets rnd limits pos relative ((axis, None) # rest) =
     check_targets rnd limits pos relative rest"
| "check_targets rnd limits pos relative ((axis, Some v) # rest) =
     (case limits axis of
        None \<Rightarrow> check_targets rnd limits pos relative rest
      | Some None \<Rightarrow> check_targets rnd limits pos relative rest
      | Some (Some (lo, hi)) \<Rightarrow>
          (if relative then
             (case pos axis of
                None \<Rightarrow> Raises OtherException
              | Some None \<Rightarrow> Raises OtherException
              | Some (Some p) \<Rightarrow>
                  if \<not> (fle lo (float_add rnd p v) \<and> fle (float_add rnd p v) hi)
                  then Raises (JubileeStateError (MoveExceedsLimit relative axis lo hi))
                  else check_targets rnd limits pos relative rest)
           else
             if \<not> (fle lo v \<and> fle v hi)
             then Raises (JubileeStateError (MoveExceedsLimit relative axis lo hi))
             else check_targets rnd limits pos relative rest))"

text \<open>
  \<^verbatim>\<open>
  def _check_axis_limits(self, target, relative=False):
      if self.simulated:
          return
      if not any(self._axis_limits):
          raise JubileeConfigurationError("Axis limits are not configured.")
      limits = dict(zip(("X", "Y", "Z"), self._axis_limits[:3]))
      pos = self.get_position() if relative else {}
      for axis, value in target.items(): ...
  \<close>
  \<^verbatim>\<open>any(None)\<close> is a \<^verbatim>\<open>TypeError\<close>; a pair \<open>(min, max)\<close> is true, \<^verbatim>\<open>None\<close> is false.
\<close>

definition check_axis_limits ::
  "world \<Rightarrow> (string \<times> pyfloat option) list \<Rightarrow> bool \<Rightarrow> unit action"
where
  "check_axis_limits w target relative = (\<lambda>c.
     if simulated c then (Returns (), c)
     else
       (case axis_limits c of
          None \<Rightarrow> (Raises OtherException, c)
        | Some lims \<Rightarrow>
            if \<not> list_ex (\<lambda>l. l \<noteq> None) lims then (Raises JubileeConfigurationError, c)
            else
              then_do (if relative then get_position w else ret Map.empty)
                (\<lambda>pos c'. (check_targets (round64 w)
                             (map_of (zip [''X'', ''Y'', ''Z''] (take 3 lims)))
                             pos relative target, c')) c))"

subsection \<open>Moves: \<^verbatim>\<open>_move_xyzu\<close>, \<^verbatim>\<open>move_to\<close>, \<^verbatim>\<open>move\<close>\<close>

definition digit :: "nat \<Rightarrow> char" where
  "digit n = ''0123456789'' ! (n mod 10)"

fun str_nat :: "nat \<Rightarrow> string" where
  "str_nat n = (if n < 10 then [digit n] else str_nat (n div 10) @ [digit n])"

declare str_nat.simps [simp del]

definition round_half_even :: "real \<Rightarrow> int" where
  "round_half_even r =
     (if r - of_int \<lfloor>r\<rfloor> < 1 / 2 then \<lfloor>r\<rfloor>
      else if 1 / 2 < r - of_int \<lfloor>r\<rfloor> then \<lfloor>r\<rfloor> + 1
      else if even \<lfloor>r\<rfloor> then \<lfloor>r\<rfloor> else \<lfloor>r\<rfloor> + 1)"

text \<open>
  The text of a finite value with two decimals: the sign, then the decimal expansion of
  the magnitude rounded to hundredths (ties to even).
\<close>

definition fixed_2 :: "real \<Rightarrow> string" where
  "fixed_2 v =
     (if v < 0 then ''-'' else []) @
     str_nat (nat (round_half_even (\<bar>v\<bar> * 100)) div 100) @ ''.'' @
     [digit (nat (round_half_even (\<bar>v\<bar> * 100)) div 10), digit (nat (round_half_even (\<bar>v\<bar> * 100)))]"

text \<open>
  \<^verbatim>\<open>f"{value:.2f}"\<close>: two decimals for a finite value, \<^verbatim>\<open>inf\<close>, \<^verbatim>\<open>-inf\<close> or \<^verbatim>\<open>nan\<close>
  otherwise.
\<close>

fun format_2f :: "pyfloat \<Rightarrow> string" where
  "format_2f (Fin r) = fixed_2 r"
| "format_2f NegZero = ''-0.00''"
| "format_2f PInf = ''inf''"
| "format_2f NInf = ''-inf''"
| "format_2f NaN = ''nan''"

text \<open>
  \<^verbatim>\<open>[f"{axis}{value:.2f}" for axis, value in axes.items() if value is not None]\<close>
\<close>

fun axis_parts :: "(string \<times> pyfloat option) list \<Rightarrow> string list" where
  "axis_parts [] = []"
| "axis_parts ((axis, None) # rest) = axis_parts rest"
| "axis_parts ((axis, Some v) # rest) = (axis @ format_2f v) # axis_parts rest"

text \<open>\<^verbatim>\<open>sep.join(parts)\<close>\<close>

fun join :: "string \<Rightarrow> string list \<Rightarrow> string" where
  "join sep [] = []"
| "join sep [p] = p"
| "join sep (p # q # ps) = p @ sep @ join sep (q # ps)"

text \<open>
  \<^verbatim>\<open>
  axes = {"X": x, "Y": y, "Z": z, "U": u, "F": s}
  cmd_parts = [f"{axis}{value:.2f}" for axis, value in axes.items() if value is not None]
  if param:
      cmd_parts.append(param)
  \<close>
\<close>

definition cmd_parts ::
  "pyfloat option \<Rightarrow> pyfloat option \<Rightarrow> pyfloat option \<Rightarrow> pyfloat option \<Rightarrow> pyfloat option \<Rightarrow>
   string option \<Rightarrow> string list"
where
  "cmd_parts x y z u s param =
     axis_parts [(''X'', x), (''Y'', y), (''Z'', z), (''U'', u), (''F'', s)] @
     (case param of None \<Rightarrow> [] | Some p \<Rightarrow> if p \<noteq> [] then [p] else [])"

text \<open>\<^verbatim>\<open>f"G0 {' '.join(cmd_parts)}"\<close>\<close>

definition g0_command ::
  "pyfloat option \<Rightarrow> pyfloat option \<Rightarrow> pyfloat option \<Rightarrow> pyfloat option \<Rightarrow> pyfloat option \<Rightarrow>
   string option \<Rightarrow> string"
where
  "g0_command x y z u s param = ''G0 '' @ join '' '' (cmd_parts x y z u s param)"

text \<open>\<^verbatim>\<open>if wait: self.gcode("M400")\<close>\<close>

definition wait_for_moves :: "world \<Rightarrow> bool \<Rightarrow> unit action" where
  "wait_for_moves w wait =
     (if wait then then_do (gcode w ''M400'' 60) (\<lambda>r. ret ()) else ret ())"

text \<open>
  The body of \<^verbatim>\<open>_move_xyzu\<close>, and the method itself, which is the body under the
  decorator \<^verbatim>\<open>@machine_homed\<close>. In simulation the command is
  \<^verbatim>\<open>f"G0 X{x} Y{y} Z{z} U{u} F{s}"\<close>.
\<close>

definition move_xyzu_body ::
  "world \<Rightarrow> pyfloat option \<Rightarrow> pyfloat option \<Rightarrow> pyfloat option \<Rightarrow> pyfloat option \<Rightarrow>
   pyfloat option \<Rightarrow> string option \<Rightarrow> bool \<Rightarrow> unit action"
where
  "move_xyzu_body w x y z u s param wait = (\<lambda>c.
     if simulated c
     then then_do
            (gcode w (''G0 X'' @ py_str w x @ '' Y'' @ py_str w y @ '' Z'' @ py_str w z @
                      '' U'' @ py_str w u @ '' F'' @ py_str w s) 60)
            (\<lambda>r. wait_for_moves w wait) c
     else then_do (gcode w (g0_command x y z u s param) 60) (\<lambda>r. wait_for_moves w wait) c)"

definition move_xyzu ::
  "world \<Rightarrow> pyfloat option \<Rightarrow> pyfloat option \<Rightarrow> pyfloat option \<Rightarrow> pyfloat option \<Rightarrow>
   pyfloat option \<Rightarrow> string option \<Rightarrow> bool \<Rightarrow> unit action"
where
  "move_xyzu w x y z u s param wait = machine_homed w (move_xyzu_body w x y z u s param wait)"

text \<open>
  \<^verbatim>\<open>move_to\<close> and \<^verbatim>\<open>move\<close> run the same three calls in simulation and on hardware; on
  hardware they sit in a \<^verbatim>\<open>try\<close> whose handlers log the exception and re-raise it.
  \<^verbatim>\<open>
  self._set_absolute_positioning()
  self._check_axis_limits({"X": x, "Y": y, "Z": z}, relative=False)
  self._move_xyzu(x=x, y=y, z=z, u=u, s=s, param=param, wait=wait)
  \<close>
\<close>

definition move_to ::
  "world \<Rightarrow> pyfloat option \<Rightarrow> pyfloat option \<Rightarrow> pyfloat option \<Rightarrow> pyfloat option \<Rightarrow>
   pyfloat option \<Rightarrow> string option \<Rightarrow> bool \<Rightarrow> unit action"
where
  "move_to w x y z u s param wait =
     then_do (set_absolute_positioning w) (\<lambda>r1.
     then_do (check_axis_limits w [(''X'', x), (''Y'', y), (''Z'', z)] False) (\<lambda>r2.
     move_xyzu w x y z u s param wait))"

definition move ::
  "world \<Rightarrow> pyfloat option \<Rightarrow> pyfloat option \<Rightarrow> pyfloat option \<Rightarrow> pyfloat option \<Rightarrow>
   pyfloat option \<Rightarrow> string option \<Rightarrow> bool \<Rightarrow> unit action"
where
  "move w dx dy dz du s param wait =
     then_do (set_relative_positioning w) (\<lambda>r1.
     then_do (check_axis_limits w [(''X'', dx), (''Y'', dy), (''Z'', dz)] True) (\<lambda>r2.
     move_xyzu w dx dy dz du s param wait))"

subsection \<open>Tool exchange\<close>

definition lock_command :: string where
  \<open>lock_command = ''M98 P"0:/macros/tool_manager/tool_lock.g"''\<close>

definition unlock_command :: string where
  \<open>unlock_command = ''M98 P"0:/macros/tool_manager/tool_unlock.g"''\<close>

text \<open>
  \<^verbatim>\<open>tool_lock\<close> calls \<^verbatim>\<open>tool_lock_macro\<close>, \<^verbatim>\<open>tool_unlock\<close> calls \<^verbatim>\<open>tool_unlock_macro\<close>:
  \<^verbatim>\<open>
  if self.simulated:
      return
  self.gcode('M98 P"0:/macros/tool_manager/tool_lock.g"')
  \<close>
\<close>

definition tool_lock_macro :: "world \<Rightarrow> unit action" where
  "tool_lock_macro w = (\<lambda>c.
     if simulated c then (Returns (), c)
     else then_do (gcode w lock_command 60) (\<lambda>r. ret ()) c)"

definition tool_unlock_macro :: "world \<Rightarrow> unit action" where
  "tool_unlock_macro w = (\<lambda>c.
     if simulated c then (Returns (), c)
     else then_do (gcode w unlock_command 60) (\<lambda>r. ret ()) c)"

definition tool_lock :: "world \<Rightarrow> unit action" where
  "tool_lock w = tool_lock_macro w"

definition tool_unlock :: "world \<Rightarrow> unit action" where
  "tool_unlock w = tool_unlock_macro w"

text \<open>
  \<^verbatim>\<open>
  def pickup_tool_sequence(self, index, z_park=None, speed=6000):
      if self.simulated:
          return
      if index not in self.tool_parking_positions:
          raise JubileeStateError(f"No parking position defined for tool {index}.")
      pos = self.tool_parking_positions[index]
      z = z_park if z_park is not None else pos["z_park"]
      self.move_to(x=pos["x_park"], y=pos["y_clear"], z=z, s=speed, wait=True)
      self.move_to(x=pos["x_park"], y=pos["y_park"], z=z, s=speed, wait=True)
      self.tool_lock()
      self.move_to(x=pos["x_park"], y=pos["y_clear"], z=z, s=speed, wait=True)
  \<close>
  \<^verbatim>\<open>park_tool_sequence\<close> is the same text with \<^verbatim>\<open>self.tool_unlock()\<close> as its third step.
\<close>

definition pickup_tool_sequence ::
  "world \<Rightarrow> int \<Rightarrow> pyfloat option \<Rightarrow> pyfloat \<Rightarrow> unit action"
where
  "pickup_tool_sequence w index z_arg speed = (\<lambda>c.
     if simulated c then (Returns (), c)
     else
       (case tool_parking_positions c index of
          None \<Rightarrow> (Raises (JubileeStateError (NoParkingPosition index)), c)
        | Some pos \<Rightarrow>
            (let z = (case z_arg of Some v \<Rightarrow> v | None \<Rightarrow> z_park pos) in
             then_do (move_to w (Some (x_park pos)) (Some (y_clear pos)) (Some z) None
                        (Some speed) None True) (\<lambda>r1.
             then_do (move_to w (Some (x_park pos)) (Some (y_park pos)) (Some z) None
                        (Some speed) None True) (\<lambda>r2.
             then_do (tool_lock w) (\<lambda>r3.
             move_to w (Some (x_park pos)) (Some (y_clear pos)) (Some z) None
               (Some speed) None True))) c)))"

definition park_tool_sequence ::
  "world \<Rightarrow> int \<Rightarrow> pyfloat option \<Rightarrow> pyfloat \<Rightarrow> unit action"
where
  "park_tool_sequence w index z_arg speed = (\<lambda>c.
     if simulated c then (Returns (), c)
     else
       (case tool_parking_positions c index of
          None \<Rightarrow> (Raises (JubileeStateError (NoParkingPosition index)), c)
        | Some pos \<Rightarrow>
            (let z = (case z_arg of Some v \<Rightarrow> v | None \<Rightarrow> z_park pos) in
             then_do (move_to w (Some (x_park pos)) (Some (y_clear pos)) (Some z) None
                        (Some speed) None True) (\<lambda>r1.
             then_do (move_to w (Some (x_park pos)) (Some (y_park pos)) (Some z) None
                        (Some speed) None True) (\<lambda>r2.
             then_do (tool_unlock w) (\<lambda>r3.
             move_to w (Some (x_park pos)) (Some (y_clear pos)) (Some z) None
               (Some speed) None True))) c)))"

text \<open>The table \<^verbatim>\<open>__init__\<close> stores in \<^verbatim>\<open>self.tool_parking_positions\<close>.\<close>

definition default_parking :: "int \<rightharpoonup> parking" where
  "default_parking =
     [0 \<mapsto> \<lparr>x_park = Fin 277, y_clear = Fin 280, y_park = Fin 342, z_park = Fin 150\<rparr>,
      1 \<mapsto> \<lparr>x_park = Fin 191, y_clear = Fin 280, y_park = Fin 342, z_park = Fin 150\<rparr>,
      2 \<mapsto> \<lparr>x_park = Fin 105, y_clear = Fin 280, y_park = Fin 342, z_park = Fin 150\<rparr>,
      3 \<mapsto> \<lparr>x_park = Fin 19, y_clear = Fin 280, y_park = Fin 342, z_park = Fin 150\<rparr>]"

subsection \<open>Vocabulary of the properties\<close>

text \<open>
  What the transport makes of \<open>cmd\<close> when the controller in state \<open>c\<close> sends it with
  the default \<^verbatim>\<open>response_wait\<close>, and the state with further commands on the wire.
\<close>

definition answer :: "world \<Rightarrow> machine \<Rightarrow> string \<Rightarrow> string outcome" where
  "answer w c cmd = transport (crash_detection c) 60 (board w (wire c) cmd)"

definition sending :: "machine \<Rightarrow> string list \<Rightarrow> machine" where
  "sending c cmds = c\<lparr>wire := wire c @ cmds\<rparr>"

text \<open>
  The limit policy in the words of the specification: a null target is not checked, an
  axis without a configured pair is not checked, a configured range is inclusive.
\<close>

definition within_limit ::
  "(string \<rightharpoonup> (pyfloat \<times> pyfloat) option) \<Rightarrow> string \<Rightarrow> pyfloat option \<Rightarrow> bool"
where
  "within_limit limits axis value =
     (case value of
        None \<Rightarrow> True
      | Some v \<Rightarrow>
          (case limits axis of
             Some (Some (lo, hi)) \<Rightarrow> fle lo v \<and> fle v hi
           | Some None \<Rightarrow> True
           | None \<Rightarrow> True))"

text \<open>
  A relative move reads the position of an axis only when the axis is moved and has a
  configured pair.
\<close>

definition reads_position ::
  "(string \<rightharpoonup> (pyfloat \<times> pyfloat) option) \<Rightarrow> string \<Rightarrow> pyfloat option \<Rightarrow> bool"
where
  "reads_position limits axis delta =
     (case delta of
        None \<Rightarrow> False
      | Some d \<Rightarrow> (case limits axis of Some (Some pair) \<Rightarrow> True | Some None \<Rightarrow> False | None \<Rightarrow> False))"

text \<open>The commands of a successful \<^verbatim>\<open>home_xyu\<close> and of a successful waiting \<^verbatim>\<open>move_to\<close>.\<close>

definition home_xyu_commands :: "string list" where
  "home_xyu_commands = [''G28 U'', ''G28 Y'', ''G28 X'', ''G90'', homed_query]"

definition move_commands ::
  "pyfloat option \<Rightarrow> pyfloat option \<Rightarrow> pyfloat option \<Rightarrow> pyfloat option \<Rightarrow> pyfloat option \<Rightarrow>
   string option \<Rightarrow> string list"
where
  "move_commands x y z u s param = [''G90'', homed_query, g0_command x y z u s param, ''M400'']"

text \<open>
  A motion-related command is a move or a macro call; a waypoint is visited by a move.
\<close>

definition motion_related :: "string \<Rightarrow> bool" where
  "motion_related cmd = (prefix ''G0 '' cmd \<or> prefix ''M98 '' cmd)"

definition is_move :: "string \<Rightarrow> bool" where
  "is_move cmd = prefix ''G0 '' cmd"

text \<open>
  The counterpart of a run. \<open>swap_lock\<close> exchanges the lock macro and the unlock macro
  and leaves every other command as it is; \<open>mirror_wire c\<close> is \<open>c\<close> with the exchange
  applied to the commands sent so far; \<open>mirror_board w\<close> is \<open>w\<close> with a board that answers
  a command, after a history, as the board of \<open>w\<close> answers the exchanged command after
  the exchanged history.
\<close>

definition swap_lock :: "string \<Rightarrow> string" where
  "swap_lock cmd =
     (if cmd = lock_command then unlock_command
      else if cmd = unlock_command then lock_command else cmd)"

definition mirror_wire :: "machine \<Rightarrow> machine" where
  "mirror_wire c = c\<lparr>wire := map swap_lock (wire c)\<rparr>"

definition mirror_board :: "world \<Rightarrow> world" where
  "mirror_board w = w\<lparr>board := (\<lambda>sent cmd. board w (map swap_lock sent) (swap_lock cmd))\<rparr>"

subsection \<open>Sample environments\<close>

text \<open>
  Concrete boards and controllers on which the theorems below are exercised. A board
  built with \<open>answering\<close> replies on the primary path; \<open>refusing bad\<close> raises a
  non-request exception from the primary path when it is sent \<open>bad\<close>.
\<close>

definition answering :: "(string \<Rightarrow> string) \<Rightarrow> string list \<Rightarrow> string \<Rightarrow> exchange" where
  "answering reply sent cmd =
     \<lparr>post_reply = Inr (reply cmd), seq_before = Inl RequestException,
      submit = Inl RequestException, polls = [], rr_reply = Inl RequestException\<rparr>"

definition refusing :: "string \<Rightarrow> (string \<Rightarrow> string) \<Rightarrow> string list \<Rightarrow> string \<Rightarrow> exchange" where
  "refusing bad reply sent cmd =
     (if cmd = bad
      then \<lparr>post_reply = Inl OtherException, seq_before = Inl RequestException,
            submit = Inl RequestException, polls = [], rr_reply = Inl RequestException\<rparr>
      else answering reply sent cmd)"

definition all_homed_text :: string where
  \<open>all_homed_text = ''{"result": [true, true, true, true]}''\<close>

definition z_unhomed_text :: string where
  \<open>z_unhomed_text = ''{"result": [true, true, false, true]}''\<close>

definition edge_reply :: "string \<Rightarrow> string" where
  "edge_reply cmd =
     (if cmd = homed_query then all_homed_text
      else if cmd = ''M114'' then ''X:100.00 Y:2.00 Z:0.00 U:50.00 Count 0 0 0 0''
      else ''ok'')"

definition bench_reply :: "string \<Rightarrow> string" where
  "bench_reply cmd =
     (if cmd = homed_query then all_homed_text
      else if cmd = ''M114'' then ''X:50.00 Y:2.00 Z:0.00 U:50.00 Count 0 0 0 0''
      else ''ok'')"

definition z_unhomed_reply :: "string \<Rightarrow> string" where
  "z_unhomed_reply cmd = (if cmd = homed_query then z_unhomed_text else bench_reply cmd)"

text \<open>\<^verbatim>\<open>json.loads\<close> and \<^verbatim>\<open>float\<close> on the texts these boards send.\<close>

definition bench_loads :: "string \<Rightarrow> json option" where
  "bench_loads s =
     (if s = all_homed_text
        then Some (JObj [(''result'', JArr [JBool True, JBool True, JBool True, JBool True])])
      else if s = z_unhomed_text
        then Some (JObj [(''result'', JArr [JBool True, JBool True, JBool False, JBool True])])
      else None)"

definition bench_float :: "string \<Rightarrow> pyfloat option" where
  "bench_float s =
     (if s = ''50.00'' then Some (Fin 50)
      else if s = ''100.00'' then Some (Fin 100)
      else if s = ''2.00'' then Some (Fin 2)
      else if s = ''1.50'' then Some (Fin (3 / 2))
      else if s = ''0.00'' then Some (Fin 0)
      else None)"

text \<open>
  Binary64 rounding on the sums these boards lead to: the sums of small integers are
  floats already, and \<^verbatim>\<open>100 + 2**-50\<close> is nearer to 100 than to the next float above 100.
\<close>

definition bench_round :: "real \<Rightarrow> pyfloat" where
  "bench_round r = (if r = 100 + 1 / 2 ^ 50 then Fin 100 else Fin r)"

definition bench :: world where
  "bench = \<lparr>board = answering bench_reply, json_loads = bench_loads,
            py_float = bench_float, py_str = (\<lambda>v. ''None''), round64 = bench_round\<rparr>"

definition bench_edge :: world where
  "bench_edge = bench\<lparr>board := answering edge_reply\<rparr>"

definition bench_z_unhomed :: world where
  "bench_z_unhomed = bench\<lparr>board := answering z_unhomed_reply\<rparr>"

definition bench_lock_fails :: world where
  "bench_lock_fails = bench\<lparr>board := refusing lock_command bench_reply\<rparr>"

text \<open>
  A board that does not answer on the primary path and whose fallback reply reports
  a crash.
\<close>

definition crash_exchange :: exchange where
  "crash_exchange =
     \<lparr>post_reply = Inl RequestException, seq_before = Inr 7, submit = Inr (),
      polls = [(Inr 7, 0), (Inr 8, 1 / 10)], rr_reply = Inr ''Error: crash detected''\<rparr>"

definition bench_crash :: world where
  "bench_crash = bench\<lparr>board := (\<lambda>sent cmd. crash_exchange)\<rparr>"

definition hardware :: machine where
  "hardware =
     \<lparr>simulated = False, session = True, crash_detection = True, absolute_positioning = True,
      axis_limits = Some [Some (Fin 0, Fin 300), Some (Fin 0, Fin 350), Some (Fin 0, Fin 300),
                          Some (Fin 0, Fin 200)],
      axes_homed = [JBool True, JBool True, JBool True, JBool True],
      tool_parking_positions = default_parking, wire = []\<rparr>"

definition narrow :: machine where
  "narrow = hardware\<lparr>axis_limits := Some [Some (Fin 0, Fin 100), Some (Fin 0, Fin 100),
                                          Some (Fin 0, Fin 100), Some (Fin 0, Fin 100)]\<rparr>"

definition simulator :: machine where
  "simulator = hardware\<lparr>simulated := True, session := False\<rparr>"

section \<open>Properties\<close>

lemmas ops [no_atp] =
  ret_def raise_def then_do_def except_as_def gcode_def query_homed_def machine_homed_def
  set_absolute_positioning_def set_relative_positioning_def set_homed_def home_axis_def
  home_x_def home_y_def home_u_def home_xyu_def get_position_def check_axis_limits_def
  move_xyzu_body_def move_xyzu_def move_to_def move_def wait_for_moves_def tool_lock_def
  tool_unlock_def tool_lock_macro_def tool_unlock_macro_def pickup_tool_sequence_def
  park_tool_sequence_def

lemmas fixtures [no_atp] =
  answering_def refusing_def all_homed_text_def z_unhomed_text_def bench_reply_def
  z_unhomed_reply_def edge_reply_def bench_loads_def bench_float_def bench_round_def bench_def
  bench_edge_def bench_z_unhomed_def
  bench_lock_fails_def crash_exchange_def bench_crash_def hardware_def simulator_def
  narrow_def default_parking_def homed_query_def lock_command_def unlock_command_def

subsection \<open>The transport\<close>

text \<open>Polls that show the old counter before the timeout has passed change nothing.\<close>

lemma poll_loop_waits:
  "list_all (\<lambda>p. fst p = Inr n \<and> snd p \<le> rw) waiting \<Longrightarrow>
   poll_loop cd rw n rr (waiting @ ps) = poll_loop cd rw n rr ps"
  by (induction waiting) (auto split: sum.splits)

text \<open>
  C4. The claim: with crash detection enabled, a fallback reply that contains the crash
  marker makes the send fail with an error of its own kind, which reaches the caller
  unchanged and is never wrapped into a communication error.

  The code raises \<^verbatim>\<open>JubileeStateError("Crash detected during G-code execution!")\<close> inside
  the \<^verbatim>\<open>try\<close> block whose handler is \<^verbatim>\<open>except Exception as e\<close>, so the handler catches
  it: whenever the primary path is unavailable (or rejects the command), the counter
  changes and the reply contains \<^verbatim>\<open>crash detected\<close>, what leaves \<^verbatim>\<open>gcode\<close> is a
  \<^verbatim>\<open>JubileeCommunicationError\<close> that wraps the state error.
\<close>

theorem gcode_crash_reply_is_wrapped:
  assumes "\<not> simulated c" and "session c" and "crash_detection c"
    and "post_reply (board w (wire c) cmd) = Inl RequestException \<or>
         (\<exists>r. post_reply (board w (wire c) cmd) = Inr r \<and> contains ''rejected'' r)"
    and "seq_before (board w (wire c) cmd) = Inr n"
    and "submit (board w (wire c) cmd) = Inr ()"
    and "polls (board w (wire c) cmd) = waiting @ (Inr m, t) # rest"
    and "list_all (\<lambda>p. fst p = Inr n \<and> snd p \<le> rw) waiting"
    and "m \<noteq> n"
    and "rr_reply (board w (wire c) cmd) = Inr response"
    and "contains ''crash detected'' response"
  shows "fst (gcode w cmd rw c) =
         Raises (JubileeCommunicationError
                   (GcodeCommunicationFailed (JubileeStateError CrashDetected)))"
proof -
  have "poll_loop True rw n (Inr response) (waiting @ (Inr m, t) # rest) =
        Raises (JubileeStateError CrashDetected)"
    using assms(8,9,11) by (simp add: poll_loop_waits)
  then have "fallback True rw (board w (wire c) cmd) =
        Raises (JubileeCommunicationError
                  (GcodeCommunicationFailed (JubileeStateError CrashDetected)))"
    using assms(5,6,7,10) by (simp add: fallback_def fallback_body_def)
  then show ?thesis
    using assms(1,2,3,4) by (auto simp: gcode_def transport_def)
qed

theorem gcode_crash_reply_is_wrapped_witness:
  "fst (gcode bench_crash ''G28 X'' 60 hardware) =
   Raises (JubileeCommunicationError
             (GcodeCommunicationFailed (JubileeStateError CrashDetected)))"
  using gcode_crash_reply_is_wrapped
    [of hardware bench_crash "''G28 X''" 7 "[(Inr 7, 0)]" 8 "1 / 10" "[]" 60
        "''Error: crash detected''"]
  by (simp add: fixtures)

subsection \<open>Commands on hardware\<close>

lemma gcode_hardware:
  "\<not> simulated c \<Longrightarrow> session c \<Longrightarrow> gcode w cmd 60 c = (answer w c cmd, sending c [cmd])"
  by (simp add: gcode_def answer_def sending_def)

lemma sending_fields [simp]:
  "simulated (sending c l) = simulated c"
  "session (sending c l) = session c"
  "crash_detection (sending c l) = crash_detection c"
  "absolute_positioning (sending c l) = absolute_positioning c"
  "axis_limits (sending c l) = axis_limits c"
  "axes_homed (sending c l) = axes_homed c"
  "tool_parking_positions (sending c l) = tool_parking_positions c"
  "wire (sending c l) = wire c @ l"
  by (simp_all add: sending_def)

lemma sending_sending [simp]: "sending (sending c k) l = sending c (k @ l)"
  by (simp add: sending_def)

lemma answer_cong [simp]:
  "answer w (c\<lparr>absolute_positioning := b\<rparr>) = answer w c"
  "answer w (c\<lparr>axes_homed := h\<rparr>) = answer w c"
  by (simp_all add: answer_def fun_eq_iff)

lemma position_response_50:
  "position_response w 50 =
     then_do (gcode w ''M114'' 60) (\<lambda>response.
       if contains ''Count'' response then ret response else position_response w 49)"
proof -
  have "(50::nat) = Suc 49" by simp
  then show ?thesis by (simp only: position_response.simps)
qed

lemma fixed_2_10: "fixed_2 10 = ''10.00''"
  by (simp add: fixed_2_def round_half_even_def digit_def str_nat.simps)

lemma fixed_2_6000: "fixed_2 6000 = ''6000.00''"
  by (simp add: fixed_2_def round_half_even_def digit_def str_nat.simps)

subsection \<open>The homing gate\<close>

lemma query_homed_hardware:
  assumes "\<not> simulated c" and "session c"
  shows "query_homed w c =
    (case answer w c homed_query of
       Returns reply \<Rightarrow>
         (case json_loads w reply of
            None \<Rightarrow> (Raises OtherException, sending c [homed_query])
          | Some doc \<Rightarrow>
              (case subscript_key doc ''result'' of
                 None \<Rightarrow> (Raises OtherException, sending c [homed_query])
               | Some v \<Rightarrow> (Returns v, sending c [homed_query])))
     | Raises e \<Rightarrow> (Raises e, sending c [homed_query])
     | Hangs \<Rightarrow> (Hangs, sending c [homed_query]))"
  using assms
  by (simp add: query_homed_def then_do_def gcode_hardware ret_def raise_def
           split: outcome.splits option.splits)

lemma machine_homed_hardware:
  assumes "\<not> simulated c" and "session c"
    and "answer w c homed_query = Returns reply"
    and "json_loads w reply = Some doc"
    and "subscript_key doc ''result'' = Some v"
    and "first_four v = Some flags"
  shows "machine_homed w func c =
     (if list_all truthy flags then func (sending c [homed_query])
      else (Raises (JubileeStateError MustBeHomed), sending c [homed_query]))"
  using assms
  by (simp add: machine_homed_def then_do_def except_as_def raise_def query_homed_hardware)

lemma machine_homed_query_fails:
  assumes "\<not> simulated c" and "session c" and "answer w c homed_query = Raises e"
  shows "machine_homed w func c =
           (Raises (JubileeStateError UnableToCheckHoming), sending c [homed_query])"
  using assms
  by (simp add: machine_homed_def then_do_def except_as_def raise_def query_homed_hardware)

text \<open>
  C1. The claim: on a connected, non-simulated controller the homing gate of \<^verbatim>\<open>move_to\<close>
  and \<^verbatim>\<open>move\<close> first consults the cached flags and queries the hardware only when the
  cache does not report all four axes homed.

  The decorator \<^verbatim>\<open>machine_homed\<close> never reads \<^verbatim>\<open>self.axes_homed\<close>. With the cache
  reporting all four axes homed and the board reporting Z unhomed, \<^verbatim>\<open>move_to\<close> sends the
  query and fails.
\<close>

theorem homing_gate_consults_cache_counterexample:
  "list_all truthy (take 4 (axes_homed hardware)) \<and>
   move_to bench_z_unhomed (Some (Fin 10)) None None None (Some (Fin 6000)) None False hardware =
     (Raises (JubileeStateError MustBeHomed), hardware\<lparr>wire := [''G90'', homed_query]\<rparr>)"
  by (simp add: fixtures ops transport_def)

text \<open>
  C1, amended. Whenever \<^verbatim>\<open>move_to\<close> or \<^verbatim>\<open>move\<close> on a connected, non-simulated controller
  has set its positioning mode and passed the limit check, reaching the gate in state
  \<open>c\<close>, the gate sends a fresh homing query whatever the cached flags of \<open>c\<close> are; when
  the reply decodes to a result whose first four entries are \<open>flags\<close>, the call fails
  with the state error "must be homed" if and only if one of them is false, and
  otherwise goes on to emit the move.
\<close>

theorem homing_gate_always_queries:
  assumes "\<not> simulated c" and "session c"
    and "answer w c homed_query = Returns reply"
    and "json_loads w reply = Some doc"
    and "subscript_key doc ''result'' = Some v"
    and "first_four v = Some flags"
  shows
    "(set_absolute_positioning w before = (Returns (), moded) \<longrightarrow>
      check_axis_limits w [(''X'', x), (''Y'', y), (''Z'', z)] False moded = (Returns (), c) \<longrightarrow>
      move_to w x y z u s param wait before =
        (if list_all truthy flags
         then move_xyzu_body w x y z u s param wait (sending c [homed_query])
         else (Raises (JubileeStateError MustBeHomed), sending c [homed_query]))) \<and>
     (set_relative_positioning w before = (Returns (), moded) \<longrightarrow>
      check_axis_limits w [(''X'', x), (''Y'', y), (''Z'', z)] True moded = (Returns (), c) \<longrightarrow>
      move w x y z u s param wait before =
        (if list_all truthy flags
         then move_xyzu_body w x y z u s param wait (sending c [homed_query])
         else (Raises (JubileeStateError MustBeHomed), sending c [homed_query])))"
  by (simp add: move_to_def move_def move_xyzu_def then_do_def
        machine_homed_hardware [OF assms])

theorem homing_gate_always_queries_witness:
  "move_to bench (Some (Fin 10)) None None None (Some (Fin 6000)) None False hardware =
     (Returns (), hardware\<lparr>wire := [''G90'', homed_query, ''G0 X10.00 F6000.00'']\<rparr>) \<and>
   move bench_z_unhomed (Some (Fin 10)) None None None (Some (Fin 6000)) None False hardware =
     (Raises (JubileeStateError MustBeHomed),
      hardware\<lparr>absolute_positioning := False, wire := [''G91'', ''M114'', homed_query]\<rparr>)"
  using homing_gate_always_queries
    [where c = "hardware\<lparr>wire := [''G90'']\<rparr>" and before = hardware
       and moded = "hardware\<lparr>wire := [''G90'']\<rparr>" and w = bench and reply = all_homed_text
       and doc = "JObj [(''result'', JArr [JBool True, JBool True, JBool True, JBool True])]"
       and v = "JArr [JBool True, JBool True, JBool True, JBool True]"
       and flags = "[JBool True, JBool True, JBool True, JBool True]"
       and x = "Some (Fin 10)" and y = None and z = None and u = None and s = "Some (Fin 6000)"
       and param = None and wait = False]
    homing_gate_always_queries
    [where c = "hardware\<lparr>absolute_positioning := False, wire := [''G91'', ''M114'']\<rparr>"
       and before = hardware
       and moded = "hardware\<lparr>absolute_positioning := False, wire := [''G91'']\<rparr>"
       and w = bench_z_unhomed and reply = z_unhomed_text
       and doc = "JObj [(''result'', JArr [JBool True, JBool True, JBool False, JBool True])]"
       and v = "JArr [JBool True, JBool True, JBool False, JBool True]"
       and flags = "[JBool True, JBool True, JBool False, JBool True]"
       and x = "Some (Fin 10)" and y = None and z = None and u = None and s = "Some (Fin 6000)"
       and param = None and wait = False]
  by (simp add: fixtures ops answer_def sending_def transport_def
        position_response_50 parse_position_def split_whitespace_def whitespace_def
        cmd_parts_def g0_command_def fixed_2_10 fixed_2_6000)

subsection \<open>Axis limits\<close>

lemma check_targets_absolute_ok:
  "list_all (\<lambda>(a, value). within_limit limits a value) target \<Longrightarrow>
   check_targets rnd limits pos False target = Returns ()"
  by (induction rnd limits pos "False" target rule: check_targets.induct)
     (auto simp: within_limit_def split: option.splits)

lemma check_targets_absolute_fails:
  "\<not> list_all (\<lambda>(a, value). within_limit limits a value) target \<Longrightarrow>
   \<exists>a lo hi. limits a = Some (Some (lo, hi)) \<and>
     check_targets rnd limits pos False target =
       Raises (JubileeStateError (MoveExceedsLimit False a lo hi))"
  by (induction rnd limits pos "False" target rule: check_targets.induct)
     (auto simp: within_limit_def split: option.splits)

lemma check_targets_relative_ok:
  "list_all (\<lambda>(a, value). reads_position limits a value \<longrightarrow> pos a = Some (Some (cur a))) target \<Longrightarrow>
   list_all (\<lambda>(a, value). within_limit limits a (map_option (float_add rnd (cur a)) value)) target \<Longrightarrow>
   check_targets rnd limits pos True target = Returns ()"
  by (induction rnd limits pos "True" target rule: check_targets.induct)
     (auto simp: within_limit_def reads_position_def split: option.splits)

lemma check_targets_relative_fails:
  "list_all (\<lambda>(a, value). reads_position limits a value \<longrightarrow> pos a = Some (Some (cur a))) target \<Longrightarrow>
   \<not> list_all (\<lambda>(a, value). within_limit limits a (map_option (float_add rnd (cur a)) value)) target \<Longrightarrow>
   \<exists>a lo hi. limits a = Some (Some (lo, hi)) \<and>
     check_targets rnd limits pos True target =
       Raises (JubileeStateError (MoveExceedsLimit True a lo hi))"
  by (induction rnd limits pos "True" target rule: check_targets.induct)
     (auto simp: within_limit_def reads_position_def split: option.splits)

lemma set_absolute_positioning_hardware:
  "\<not> simulated c \<Longrightarrow> session c \<Longrightarrow> answer w c ''G90'' = Returns r \<Longrightarrow>
   set_absolute_positioning w c = (Returns (), (sending c [''G90''])\<lparr>absolute_positioning := True\<rparr>)"
  by (simp add: set_absolute_positioning_def then_do_def gcode_hardware)

lemma set_relative_positioning_hardware:
  "\<not> simulated c \<Longrightarrow> session c \<Longrightarrow> answer w c ''G91'' = Returns r \<Longrightarrow>
   set_relative_positioning w c = (Returns (), (sending c [''G91''])\<lparr>absolute_positioning := False\<rparr>)"
  by (simp add: set_relative_positioning_def then_do_def gcode_hardware)

lemma check_axis_limits_absolute_hardware:
  "\<not> simulated c \<Longrightarrow> axis_limits c = Some lims \<Longrightarrow> list_ex (\<lambda>l. l \<noteq> None) lims \<Longrightarrow>
   check_axis_limits w target False c =
     (check_targets (round64 w) (map_of (zip [''X'', ''Y'', ''Z''] (take 3 lims))) Map.empty False target, c)"
  by (simp add: check_axis_limits_def then_do_def ret_def)

lemma get_position_hardware:
  "\<not> simulated c \<Longrightarrow> session c \<Longrightarrow> answer w c ''M114'' = Returns response \<Longrightarrow>
   contains ''Count'' response \<Longrightarrow>
   get_position w c = (Returns (parse_position (py_float w) response), sending c [''M114''])"
  by (simp add: get_position_def position_response_50 then_do_def gcode_hardware ret_def)

lemma check_axis_limits_relative_hardware:
  "\<not> simulated c \<Longrightarrow> session c \<Longrightarrow> axis_limits c = Some lims \<Longrightarrow>
   list_ex (\<lambda>l. l \<noteq> None) lims \<Longrightarrow> answer w c ''M114'' = Returns response \<Longrightarrow>
   contains ''Count'' response \<Longrightarrow>
   check_axis_limits w target True c =
     (check_targets (round64 w) (map_of (zip [''X'', ''Y'', ''Z''] (take 3 lims)))
        (parse_position (py_float w) response) True target, sending c [''M114''])"
  by (simp add: check_axis_limits_def then_do_def get_position_hardware)

lemma move_to_unconfigured_limits:
  assumes "\<not> simulated c" and "session c" and "answer w c ''G90'' = Returns r"
    and "axis_limits c = Some lims" and "\<not> list_ex (\<lambda>l. l \<noteq> None) lims"
  shows "move_to w x y z u s param wait c =
           (Raises JubileeConfigurationError, (sending c [''G90''])\<lparr>absolute_positioning := True\<rparr>)"
  using assms
  by (simp add: move_to_def then_do_def set_absolute_positioning_hardware check_axis_limits_def)

lemma bench_position:
  "parse_position bench_float ''X:50.00 Y:2.00 Z:0.00 U:50.00 Count 0 0 0 0'' =
     [''X'' \<mapsto> Some (Fin 50), ''Y'' \<mapsto> Some (Fin 2), ''Z'' \<mapsto> Some (Fin 0), ''U'' \<mapsto> Some (Fin 50)]"
  by (simp add: parse_position_def split_whitespace_def whitespace_def bench_float_def)

lemma edge_position:
  "parse_position bench_float ''X:100.00 Y:2.00 Z:0.00 U:50.00 Count 0 0 0 0'' =
     [''X'' \<mapsto> Some (Fin 100), ''Y'' \<mapsto> Some (Fin 2), ''Z'' \<mapsto> Some (Fin 0), ''U'' \<mapsto> Some (Fin 50)]"
  by (simp add: parse_position_def split_whitespace_def whitespace_def bench_float_def)

text \<open>
  C2. The claim: an absolute \<^verbatim>\<open>move_to\<close> whose target lies outside a configured range
  fails and issues no wire command at all.

  \<^verbatim>\<open>move_to\<close> calls \<^verbatim>\<open>_set_absolute_positioning\<close> before \<^verbatim>\<open>_check_axis_limits\<close>: the
  rejected move leaves \<^verbatim>\<open>G90\<close> on the wire.
\<close>

theorem move_to_no_wire_command_counterexample:
  "move_to bench (Some (Fin 500)) None None None (Some (Fin 6000)) None False hardware =
     (Raises (JubileeStateError (MoveExceedsLimit False ''X'' (Fin 0) (Fin 300))),
      hardware\<lparr>wire := [''G90'']\<rparr>)"
  by (simp add: fixtures ops transport_def)

text \<open>
  C2, amended. On a connected, non-simulated controller whose limit table has at least
  one configured pair, once \<^verbatim>\<open>G90\<close> has been accepted: if the targets for X, Y and Z are
  all within the limit policy (\<open>within_limit\<close>: inclusive range, unconfigured axis and
  null target unchecked), \<^verbatim>\<open>move_to\<close> goes on to the gated move; otherwise it fails with
  the state error "move exceeds axis limit" for an axis with a configured pair, and
  \<^verbatim>\<open>G90\<close> is the only command it has put on the wire. The limits come from the first
  three entries of the table and the target for U is not part of the check.
\<close>

theorem move_to_limit_check:
  assumes "\<not> simulated c" and "session c" and "answer w c ''G90'' = Returns r"
    and "axis_limits c = Some lims" and "list_ex (\<lambda>l. l \<noteq> None) lims"
    and "limits = map_of (zip [''X'', ''Y'', ''Z''] (take 3 lims))"
    and "moded = (sending c [''G90''])\<lparr>absolute_positioning := True\<rparr>"
  shows
    "(within_limit limits ''X'' x \<and> within_limit limits ''Y'' y \<and> within_limit limits ''Z'' z \<longrightarrow>
        move_to w x y z u s param wait c = move_xyzu w x y z u s param wait moded) \<and>
     (\<not> (within_limit limits ''X'' x \<and> within_limit limits ''Y'' y \<and> within_limit limits ''Z'' z) \<longrightarrow>
        (\<exists>a lo hi. limits a = Some (Some (lo, hi)) \<and>
           move_to w x y z u s param wait c =
             (Raises (JubileeStateError (MoveExceedsLimit False a lo hi)), moded)))"
proof -
  let ?target = "[(''X'', x), (''Y'', y), (''Z'', z)]"
  have mode: "set_absolute_positioning w c = (Returns (), moded)"
    using assms by (simp add: set_absolute_positioning_hardware)
  have chk: "check_axis_limits w ?target False moded =
               (check_targets (round64 w) limits Map.empty False ?target, moded)"
    using assms by (simp add: check_axis_limits_absolute_hardware)
  have all: "list_all (\<lambda>(a, value). within_limit limits a value) ?target \<longleftrightarrow>
      within_limit limits ''X'' x \<and> within_limit limits ''Y'' y \<and> within_limit limits ''Z'' z"
    by simp
  show ?thesis
  proof (cases "list_all (\<lambda>(a, value). within_limit limits a value) ?target")
    case True
    then have "check_targets (round64 w) limits Map.empty False ?target = Returns ()"
      by (rule check_targets_absolute_ok)
    with mode chk True all show ?thesis
      by (simp add: move_to_def then_do_def)
  next
    case False
    then obtain a lo hi where "limits a = Some (Some (lo, hi))"
      and "check_targets (round64 w) limits Map.empty False ?target =
             Raises (JubileeStateError (MoveExceedsLimit False a lo hi))"
      using check_targets_absolute_fails by blast
    with mode chk False all show ?thesis
      by (auto simp: move_to_def then_do_def)
  qed
qed


theorem move_to_limit_check_witness:
  "move_to bench (Some (Fin 300)) None None None (Some (Fin 6000)) None False hardware =
     (Returns (), hardware\<lparr>wire := [''G90'', homed_query, ''G0 X300.00 F6000.00'']\<rparr>) \<and>
   move_to bench (Some (Fin 0)) None None None (Some (Fin 6000)) None False hardware =
     (Returns (), hardware\<lparr>wire := [''G90'', homed_query, ''G0 X0.00 F6000.00'']\<rparr>) \<and>
   move_to bench (Some (Fin 301)) None None None (Some (Fin 6000)) None False hardware =
     (Raises (JubileeStateError (MoveExceedsLimit False ''X'' (Fin 0) (Fin 300))),
      hardware\<lparr>wire := [''G90'']\<rparr>)"
  using move_to_limit_check
    [where c = hardware and w = bench and r = "''ok''"
       and lims = "[Some (Fin 0, Fin 300), Some (Fin 0, Fin 350), Some (Fin 0, Fin 300), Some (Fin 0, Fin 200)]"
       and x = "Some (Fin 300)" and y = None and z = None and u = None and s = "Some (Fin 6000)"
       and param = None and wait = False, OF _ _ _ _ _ refl refl]
    move_to_limit_check
    [where c = hardware and w = bench and r = "''ok''"
       and lims = "[Some (Fin 0, Fin 300), Some (Fin 0, Fin 350), Some (Fin 0, Fin 300), Some (Fin 0, Fin 200)]"
       and x = "Some (Fin 301)" and y = None and z = None and u = None and s = "Some (Fin 6000)"
       and param = None and wait = False, OF _ _ _ _ _ refl refl]
  by (simp add: fixtures ops answer_def sending_def transport_def within_limit_def
        cmd_parts_def g0_command_def fixed_2_def round_half_even_def digit_def str_nat.simps)

text \<open>
  C5. The claim: for every relative move with a configured limit on the moved axis the
  bound check is applied to current position plus delta.

  The check covers X, Y and Z only. With U at 50 and the U limit configured as
  \<open>(0, 100)\<close>, a relative move of U by 60 is emitted.
\<close>

theorem move_relative_u_axis_counterexample:
  "axis_limits narrow = Some [Some (Fin 0, Fin 100), Some (Fin 0, Fin 100), Some (Fin 0, Fin 100), Some (Fin 0, Fin 100)] \<and>
   parse_position bench_float ''X:50.00 Y:2.00 Z:0.00 U:50.00 Count 0 0 0 0'' ''U'' = Some (Some (Fin 50)) \<and>
   move bench None None None (Some (Fin 60)) (Some (Fin 6000)) None False narrow =
     (Returns (),
      narrow\<lparr>absolute_positioning := False,
             wire := [''G91'', ''M114'', homed_query, ''G0 U60.00 F6000.00'']\<rparr>)"
  by (simp add: fixtures ops transport_def bench_position position_response_50
        cmd_parts_def g0_command_def fixed_2_def round_half_even_def digit_def str_nat.simps)

text \<open>
  C5, amended. For a relative move on a connected, non-simulated controller, once \<^verbatim>\<open>G91\<close>
  has been accepted and the position reply has been read: the limit policy is applied,
  for each of X, Y and Z, to the float sum of the fetched position and the requested
  delta (\<open>float_add\<close> with the rounding of the platform), not to the delta and not to
  the exact sum. The position of an axis is needed only where the axis is moved and has
  a configured pair (\<open>reads_position\<close>). If all three sums are within the policy the
  move goes on to the gated move, otherwise it fails with the state error "move exceeds
  axis limit". With X at 50 and the X limit \<open>(0, 100)\<close>, a move by 60 fails, a move by
  40 is emitted and so is a move by -40; with X at 100 a move by \<^verbatim>\<open>2**-50\<close> is emitted,
  because the float sum is 100 (the witness).
\<close>

theorem move_relative_limit_check:
  assumes "\<not> simulated c" and "session c" and "answer w c ''G91'' = Returns r"
    and "axis_limits c = Some lims" and "list_ex (\<lambda>l. l \<noteq> None) lims"
    and "answer w (sending c [''G91'']) ''M114'' = Returns response"
    and "contains ''Count'' response"
    and "limits = map_of (zip [''X'', ''Y'', ''Z''] (take 3 lims))"
    and "reads_position limits ''X'' dx \<longrightarrow>
           parse_position (py_float w) response ''X'' = Some (Some px)"
    and "reads_position limits ''Y'' dy \<longrightarrow>
           parse_position (py_float w) response ''Y'' = Some (Some py)"
    and "reads_position limits ''Z'' dz \<longrightarrow>
           parse_position (py_float w) response ''Z'' = Some (Some pz)"
    and "checked = (sending c [''G91'', ''M114''])\<lparr>absolute_positioning := False\<rparr>"
  shows
    "(within_limit limits ''X'' (map_option (float_add (round64 w) px) dx) \<and>
      within_limit limits ''Y'' (map_option (float_add (round64 w) py) dy) \<and>
      within_limit limits ''Z'' (map_option (float_add (round64 w) pz) dz) \<longrightarrow>
        move w dx dy dz du s param wait c = move_xyzu w dx dy dz du s param wait checked) \<and>
     (\<not> (within_limit limits ''X'' (map_option (float_add (round64 w) px) dx) \<and>
         within_limit limits ''Y'' (map_option (float_add (round64 w) py) dy) \<and>
         within_limit limits ''Z'' (map_option (float_add (round64 w) pz) dz)) \<longrightarrow>
        (\<exists>a lo hi. limits a = Some (Some (lo, hi)) \<and>
           move w dx dy dz du s param wait c =
             (Raises (JubileeStateError (MoveExceedsLimit True a lo hi)), checked)))"
proof -
  let ?target = "[(''X'', dx), (''Y'', dy), (''Z'', dz)]"
  let ?pos = "parse_position (py_float w) response"
  let ?rnd = "round64 w"
  define cur where "cur = (\<lambda>a. if a = ''X'' then px else if a = ''Y'' then py else pz)"
  let ?moded = "(sending c [''G91''])\<lparr>absolute_positioning := False\<rparr>"
  have mode: "set_relative_positioning w c = (Returns (), ?moded)"
    using assms by (simp add: set_relative_positioning_hardware)
  have chk: "check_axis_limits w ?target True ?moded =
               (check_targets ?rnd limits ?pos True ?target, checked)"
    using assms(1-8,12) by (simp add: check_axis_limits_relative_hardware sending_def)
  have num: "list_all (\<lambda>(a, value). reads_position limits a value \<longrightarrow>
               ?pos a = Some (Some (cur a))) ?target"
    using assms(9-11) by (simp add: cur_def)
  have all: "list_all (\<lambda>(a, value). within_limit limits a (map_option (float_add ?rnd (cur a)) value)) ?target \<longleftrightarrow>
      within_limit limits ''X'' (map_option (float_add ?rnd px) dx) \<and>
      within_limit limits ''Y'' (map_option (float_add ?rnd py) dy) \<and>
      within_limit limits ''Z'' (map_option (float_add ?rnd pz) dz)"
    by (simp add: cur_def)
  show ?thesis
  proof (cases "list_all (\<lambda>(a, value). within_limit limits a (map_option (float_add ?rnd (cur a)) value)) ?target")
    case True
    then have "check_targets ?rnd limits ?pos True ?target = Returns ()"
      using num by (rule check_targets_relative_ok [rotated])
    with mode chk True all show ?thesis
      by (simp add: move_def then_do_def)
  next
    case False
    then obtain a lo hi where "limits a = Some (Some (lo, hi))"
      and "check_targets ?rnd limits ?pos True ?target =
             Raises (JubileeStateError (MoveExceedsLimit True a lo hi))"
      using check_targets_relative_fails [OF num] by blast
    with mode chk False all show ?thesis
      by (auto simp: move_def then_do_def)
  qed
qed

theorem move_relative_limit_check_witness:
  "move bench (Some (Fin 60)) None None None (Some (Fin 6000)) None False narrow =
     (Raises (JubileeStateError (MoveExceedsLimit True ''X'' (Fin 0) (Fin 100))),
      narrow\<lparr>absolute_positioning := False, wire := [''G91'', ''M114'']\<rparr>) \<and>
   move bench (Some (Fin 40)) None None None (Some (Fin 6000)) None False narrow =
     (Returns (),
      narrow\<lparr>absolute_positioning := False,
             wire := [''G91'', ''M114'', homed_query, ''G0 X40.00 F6000.00'']\<rparr>) \<and>
   move bench (Some (Fin (- 40))) None None None (Some (Fin 6000)) None False narrow =
     (Returns (),
      narrow\<lparr>absolute_positioning := False,
             wire := [''G91'', ''M114'', homed_query, ''G0 X-40.00 F6000.00'']\<rparr>) \<and>
   move bench_edge (Some (Fin (1 / 2 ^ 50))) None None None (Some (Fin 6000)) None False narrow =
     (Returns (),
      narrow\<lparr>absolute_positioning := False,
             wire := [''G91'', ''M114'', homed_query, ''G0 X0.00 F6000.00'']\<rparr>)"
  using move_relative_limit_check
    [where c = narrow and w = bench and r = "''ok''"
       and lims = "[Some (Fin 0, Fin 100), Some (Fin 0, Fin 100), Some (Fin 0, Fin 100), Some (Fin 0, Fin 100)]"
       and response = "''X:50.00 Y:2.00 Z:0.00 U:50.00 Count 0 0 0 0''"
       and px = "Fin 50" and py = "Fin 2" and pz = "Fin 0"
       and dx = "Some (Fin 60)" and dy = None and dz = None and du = None and s = "Some (Fin 6000)"
       and param = None and wait = False, OF _ _ _ _ _ _ _ refl _ _ _ refl]
    move_relative_limit_check
    [where c = narrow and w = bench and r = "''ok''"
       and lims = "[Some (Fin 0, Fin 100), Some (Fin 0, Fin 100), Some (Fin 0, Fin 100), Some (Fin 0, Fin 100)]"
       and response = "''X:50.00 Y:2.00 Z:0.00 U:50.00 Count 0 0 0 0''"
       and px = "Fin 50" and py = "Fin 2" and pz = "Fin 0"
       and dx = "Some (Fin 40)" and dy = None and dz = None and du = None and s = "Some (Fin 6000)"
       and param = None and wait = False, OF _ _ _ _ _ _ _ refl _ _ _ refl]
    move_relative_limit_check
    [where c = narrow and w = bench and r = "''ok''"
       and lims = "[Some (Fin 0, Fin 100), Some (Fin 0, Fin 100), Some (Fin 0, Fin 100), Some (Fin 0, Fin 100)]"
       and response = "''X:50.00 Y:2.00 Z:0.00 U:50.00 Count 0 0 0 0''"
       and px = "Fin 50" and py = "Fin 2" and pz = "Fin 0"
       and dx = "Some (Fin (- 40))" and dy = None and dz = None and du = None and s = "Some (Fin 6000)"
       and param = None and wait = False, OF _ _ _ _ _ _ _ refl _ _ _ refl]
    move_relative_limit_check
    [where c = narrow and w = bench_edge and r = "''ok''"
       and lims = "[Some (Fin 0, Fin 100), Some (Fin 0, Fin 100), Some (Fin 0, Fin 100), Some (Fin 0, Fin 100)]"
       and response = "''X:100.00 Y:2.00 Z:0.00 U:50.00 Count 0 0 0 0''"
       and px = "Fin 100" and py = "Fin 2" and pz = "Fin 0"
       and dx = "Some (Fin (1 / 2 ^ 50))" and dy = None and dz = None and du = None and s = "Some (Fin 6000)"
       and param = None and wait = False, OF _ _ _ _ _ _ _ refl _ _ _ refl]
  by (simp add: fixtures ops answer_def sending_def transport_def within_limit_def
        reads_position_def bench_position edge_position position_response_50
        cmd_parts_def g0_command_def fixed_2_def round_half_even_def digit_def str_nat.simps)

subsection \<open>Tool exchange\<close>

lemma default_parking_None_iff: "default_parking index = None \<longleftrightarrow> index < 0 \<or> 3 < index"
  by (auto simp: default_parking_def)

text \<open>
  C10. The claim: for every tool index without a parking position, \<^verbatim>\<open>pickup_tool_sequence\<close>
  and \<^verbatim>\<open>park_tool_sequence\<close> fail with a state error naming the index.

  Both methods return at once on a simulated controller, before they look the index up.
\<close>

theorem tool_sequence_unknown_index_counterexample:
  "tool_parking_positions simulator 7 = None \<and>
   pickup_tool_sequence bench 7 None (Fin 6000) simulator = (Returns (), simulator) \<and>
   park_tool_sequence bench 7 None (Fin 6000) simulator = (Returns (), simulator)"
  by (simp add: pickup_tool_sequence_def park_tool_sequence_def simulator_def hardware_def
        default_parking_def)

text \<open>
  C10, amended. For a tool index without an entry in the parking table (with the table
  of \<^verbatim>\<open>__init__\<close>: any index outside 0..3, lemma \<open>default_parking_None_iff\<close>), on a
  non-simulated controller both sequences fail with the state error "no parking position
  defined" for that index and leave the controller as it was, with nothing sent; on a
  simulated controller both return without an error and without any effect.
\<close>

theorem tool_sequence_unknown_index:
  assumes "tool_parking_positions c index = None"
  shows
    "(\<not> simulated c \<longrightarrow>
        pickup_tool_sequence w index z_arg speed c =
          (Raises (JubileeStateError (NoParkingPosition index)), c) \<and>
        park_tool_sequence w index z_arg speed c =
          (Raises (JubileeStateError (NoParkingPosition index)), c)) \<and>
     (simulated c \<longrightarrow>
        pickup_tool_sequence w index z_arg speed c = (Returns (), c) \<and>
        park_tool_sequence w index z_arg speed c = (Returns (), c))"
  using assms by (simp add: pickup_tool_sequence_def park_tool_sequence_def)

theorem tool_sequence_unknown_index_witness:
  "pickup_tool_sequence bench 7 None (Fin 6000) hardware =
     (Raises (JubileeStateError (NoParkingPosition 7)), hardware) \<and>
   park_tool_sequence bench (- 1) None (Fin 6000) hardware =
     (Raises (JubileeStateError (NoParkingPosition (- 1))), hardware) \<and>
   park_tool_sequence bench 4 None (Fin 6000) simulator = (Returns (), simulator)"
  using tool_sequence_unknown_index [of hardware 7 bench None "Fin 6000"]
    tool_sequence_unknown_index [of hardware "- 1" bench None "Fin 6000"]
    tool_sequence_unknown_index [of simulator 4 bench None "Fin 6000"]
  by (simp add: hardware_def simulator_def default_parking_def)

subsection \<open>Homing\<close>

lemma home_axis_hardware:
  assumes "\<not> simulated c" and "session c"
  shows "home_axis w axis i c =
    (case answer w c (''G28 '' @ axis) of
       Returns r \<Rightarrow>
         if i < length (axes_homed c)
         then (Returns (), (sending c [''G28 '' @ axis])\<lparr>axes_homed := (axes_homed c)[i := JBool True]\<rparr>)
         else (Raises (JubileeHomingError (FailedToHome axis)), sending c [''G28 '' @ axis])
     | Raises e \<Rightarrow> (Raises (JubileeHomingError (FailedToHome axis)), sending c [''G28 '' @ axis])
     | Hangs \<Rightarrow> (Hangs, sending c [''G28 '' @ axis]))"
  using assms
  by (simp add: home_axis_def except_as_def then_do_def gcode_hardware set_homed_def raise_def
           split: outcome.splits)

lemma home_axis_unconnected:
  "\<not> simulated c \<Longrightarrow> \<not> session c \<Longrightarrow>
   home_axis w axis i c = (Raises (JubileeHomingError (FailedToHome axis)), c)"
  by (simp add: home_axis_def except_as_def then_do_def gcode_def raise_def)

lemma home_xyu_returns:
  assumes "\<not> simulated c" and "home_xyu w c = (Returns (), c')"
  shows "wire c' = wire c @ home_xyu_commands \<and>
     (\<exists>reply doc status zh.
        answer w (sending c [''G28 U'', ''G28 Y'', ''G28 X'', ''G90'']) homed_query = Returns reply \<and>
        json_loads w reply = Some doc \<and> subscript_key doc ''result'' = Some status \<and>
        subscript_index status 2 = Some zh \<and>
        axes_homed c' = [JBool True, JBool True, zh, JBool True])"
proof (cases "session c")
  case False
  with assms show ?thesis
    by (simp add: home_xyu_def home_u_def except_as_def then_do_def home_axis_unconnected raise_def)
next
  case True
  with assms show ?thesis
    apply (simp add: home_xyu_def home_u_def home_y_def home_x_def except_as_def then_do_def
        home_axis_hardware set_absolute_positioning_def gcode_hardware query_homed_hardware
        raise_def home_xyu_commands_def
        split: outcome.splits if_splits option.splits prod.splits)
    apply (auto simp: sending_def answer_def)
    done
qed


lemma home_xyu_prefix:
  assumes "\<not> simulated c"
  shows "\<exists>cmds. wire (snd (home_xyu w c)) = wire c @ cmds \<and> cmds \<in> set (prefixes home_xyu_commands)"
proof (cases "session c")
  case False
  with assms show ?thesis
    by (simp add: home_xyu_def home_u_def except_as_def then_do_def home_axis_unconnected raise_def)
next
  case True
  with assms show ?thesis
    by (simp add: home_xyu_def home_u_def home_y_def home_x_def except_as_def then_do_def
        home_axis_hardware set_absolute_positioning_def gcode_hardware query_homed_hardware
        raise_def home_xyu_commands_def sending_def
        split: outcome.splits if_splits option.splits prod.splits)
qed

lemma home_xyu_raises:
  assumes "\<not> simulated c" and "home_xyu w c = (Raises e, c')"
  shows "e = JubileeHomingError FailedToHomeXYU"
  using assms
  by (auto simp: home_xyu_def except_as_def raise_def split: outcome.splits prod.splits)

lemma home_xyu_bench_z_unhomed:
  "home_xyu bench_z_unhomed
     (hardware\<lparr>axes_homed := [JBool False, JBool False, JBool False, JBool False]\<rparr>) =
     (Returns (),
      hardware\<lparr>axes_homed := [JBool True, JBool True, JBool False, JBool True],
               wire := [''G28 U'', ''G28 Y'', ''G28 X'', ''G90'', homed_query]\<rparr>)"
  by (simp add: fixtures ops transport_def)

lemma home_xyu_y_refused:
  "home_xyu (bench\<lparr>board := refusing ''G28 Y'' bench_reply\<rparr>) hardware =
     (Raises (JubileeHomingError FailedToHomeXYU), hardware\<lparr>wire := [''G28 U'', ''G28 Y'']\<rparr>)"
  by (simp add: fixtures ops transport_def)

text \<open>
  C3. The claim: \<^verbatim>\<open>home_xyu()\<close> always emits the home commands U, Y, X, restores absolute
  positioning, re-queries the homing status once and sets the cached flags to
  \<open>[true, true, queried Z, true]\<close>.

  On a simulated controller \<^verbatim>\<open>home_xyu\<close> returns without a command and without a query,
  with all four flags set to true.
\<close>

theorem home_xyu_always_emits_counterexample:
  "home_xyu bench (simulator\<lparr>axes_homed := [JBool False, JBool False, JBool False, JBool False]\<rparr>) =
     (Returns (), simulator) \<and> wire simulator = []"
  by (simp add: home_xyu_def simulator_def hardware_def)

text \<open>
  C3, amended. On a non-simulated controller the commands \<^verbatim>\<open>home_xyu()\<close> puts on the wire
  are always a prefix of \<^verbatim>\<open>G28 U\<close>, \<^verbatim>\<open>G28 Y\<close>, \<^verbatim>\<open>G28 X\<close>, \<^verbatim>\<open>G90\<close>, the homing query, in
  that order; whatever goes wrong is raised as the homing error "failed to home XYU";
  and when the call returns it has sent all five, once each, and has set the cached
  flags to \<open>[true, true, zh, true]\<close>, where \<open>zh\<close> is the third entry of the result the
  board reported to that query. On a simulated controller it sends nothing and sets
  all four flags to true.
\<close>

theorem home_xyu_order:
  "(\<not> simulated c \<longrightarrow>
      (\<exists>cmds. wire (snd (home_xyu w c)) = wire c @ cmds \<and>
              cmds \<in> set (prefixes [''G28 U'', ''G28 Y'', ''G28 X'', ''G90'', homed_query])) \<and>
      (\<forall>e. fst (home_xyu w c) = Raises e \<longrightarrow> e = JubileeHomingError FailedToHomeXYU) \<and>
      (fst (home_xyu w c) = Returns () \<longrightarrow>
         wire (snd (home_xyu w c)) =
           wire c @ [''G28 U'', ''G28 Y'', ''G28 X'', ''G90'', homed_query] \<and>
         (\<exists>reply doc status zh.
            answer w (sending c [''G28 U'', ''G28 Y'', ''G28 X'', ''G90'']) homed_query =
              Returns reply \<and>
            json_loads w reply = Some doc \<and> subscript_key doc ''result'' = Some status \<and>
            subscript_index status 2 = Some zh \<and>
            axes_homed (snd (home_xyu w c)) = [JBool True, JBool True, zh, JBool True]))) \<and>
   (simulated c \<longrightarrow>
      home_xyu w c =
        (Returns (), c\<lparr>axes_homed := [JBool True, JBool True, JBool True, JBool True]\<rparr>))"
proof -
  have "fst (home_xyu w c) = Returns () \<Longrightarrow> home_xyu w c = (Returns (), snd (home_xyu w c))"
    by (metis prod.collapse)
  moreover have "\<And>e. fst (home_xyu w c) = Raises e \<Longrightarrow> home_xyu w c = (Raises e, snd (home_xyu w c))"
    by (metis prod.collapse)
  ultimately show ?thesis
    using home_xyu_prefix [of c w] home_xyu_raises [of c w] home_xyu_returns [of c w]
    by (auto simp: home_xyu_commands_def home_xyu_def)
qed

theorem home_xyu_order_witness:
  "home_xyu bench_z_unhomed
     (hardware\<lparr>axes_homed := [JBool False, JBool False, JBool False, JBool False]\<rparr>) =
     (Returns (),
      hardware\<lparr>axes_homed := [JBool True, JBool True, JBool False, JBool True],
               wire := [''G28 U'', ''G28 Y'', ''G28 X'', ''G90'', homed_query]\<rparr>) \<and>
   home_xyu (bench\<lparr>board := refusing ''G28 Y'' bench_reply\<rparr>) hardware =
     (Raises (JubileeHomingError FailedToHomeXYU), hardware\<lparr>wire := [''G28 U'', ''G28 Y'']\<rparr>) \<and>
   home_xyu bench (simulator\<lparr>axes_homed := []\<rparr>) = (Returns (), simulator)"
proof -
  let ?cold = "hardware\<lparr>axes_homed := [JBool False, JBool False, JBool False, JBool False]\<rparr>"
  have hw: "\<not> simulated ?cold"
    by (simp add: hardware_def)
  have ret: "fst (home_xyu bench_z_unhomed ?cold) = Returns ()"
    by (simp add: home_xyu_bench_z_unhomed)
  from home_xyu_order [of ?cold bench_z_unhomed] hw ret
  have "wire (snd (home_xyu bench_z_unhomed ?cold)) =
          wire ?cold @ [''G28 U'', ''G28 Y'', ''G28 X'', ''G90'', homed_query]"
    by blast
  moreover have sim: "simulated (simulator\<lparr>axes_homed := []\<rparr>)"
    by (simp add: simulator_def)
  from home_xyu_order [of "simulator\<lparr>axes_homed := []\<rparr>" bench] sim
  have "home_xyu bench (simulator\<lparr>axes_homed := []\<rparr>) =
          (Returns (), simulator\<lparr>axes_homed := [],
                                   axes_homed := [JBool True, JBool True, JBool True, JBool True]\<rparr>)"
    by blast
  then have "home_xyu bench (simulator\<lparr>axes_homed := []\<rparr>) = (Returns (), simulator)"
    by (simp add: simulator_def hardware_def)
  ultimately show ?thesis
    by (simp add: home_xyu_bench_z_unhomed home_xyu_y_refused)
qed

subsection \<open>The tool-exchange sequences\<close>

lemma move_to_returns:
  assumes "\<not> simulated c" and "move_to w x y z u s param True c = (Returns (), c')"
  shows "c' = c\<lparr>absolute_positioning := True, wire := wire c @ move_commands x y z u s param\<rparr>"
  using assms
  by (auto simp: move_to_def set_absolute_positioning_def check_axis_limits_def move_xyzu_def
        machine_homed_def query_homed_def move_xyzu_body_def wait_for_moves_def gcode_def
        then_do_def except_as_def ret_def raise_def move_commands_def
      split: if_splits outcome.splits option.splits prod.splits)

lemma move_to_keeps:
  assumes "move_to w x y z u s param wait c = (r, c')"
  shows "simulated c' = simulated c \<and> session c' = session c \<and>
         crash_detection c' = crash_detection c \<and> axis_limits c' = axis_limits c \<and>
         tool_parking_positions c' = tool_parking_positions c \<and> axes_homed c' = axes_homed c"
  using assms
  by (auto simp: move_to_def set_absolute_positioning_def check_axis_limits_def move_xyzu_def
        machine_homed_def query_homed_def move_xyzu_body_def wait_for_moves_def gcode_def
        then_do_def except_as_def ret_def raise_def
      split: if_splits outcome.splits option.splits prod.splits)


lemma motion_related_simps [simp]:
  "\<not> motion_related ''G90''" "\<not> motion_related ''M400''" "\<not> motion_related homed_query"
  "motion_related (g0_command x y z u s param)" "motion_related lock_command"
  "motion_related unlock_command"
  by (simp_all add: motion_related_def homed_query_def g0_command_def lock_command_def
        unlock_command_def)

lemma is_move_simps [simp]:
  "\<not> is_move ''G90''" "\<not> is_move ''M400''" "\<not> is_move homed_query"
  "is_move (g0_command x y z u s param)" "\<not> is_move lock_command" "\<not> is_move unlock_command"
  by (simp_all add: is_move_def homed_query_def g0_command_def lock_command_def
        unlock_command_def)

lemma not_lock_command [simp]:
  "''G90'' \<noteq> lock_command" "''M400'' \<noteq> lock_command" "homed_query \<noteq> lock_command"
  "g0_command x y z u s param \<noteq> lock_command"
  by (simp_all add: homed_query_def g0_command_def lock_command_def)

lemma tool_lock_hardware:
  "\<not> simulated c \<Longrightarrow> session c \<Longrightarrow>
   tool_lock w c = (case answer w c lock_command of
                      Returns r \<Rightarrow> (Returns (), sending c [lock_command])
                    | Raises e \<Rightarrow> (Raises e, sending c [lock_command])
                    | Hangs \<Rightarrow> (Hangs, sending c [lock_command]))"
  by (simp add: tool_lock_def tool_lock_macro_def then_do_def gcode_hardware ret_def
        split: outcome.splits)

lemma tool_unlock_hardware:
  "\<not> simulated c \<Longrightarrow> session c \<Longrightarrow>
   tool_unlock w c = (case answer w c unlock_command of
                      Returns r \<Rightarrow> (Returns (), sending c [unlock_command])
                    | Raises e \<Rightarrow> (Raises e, sending c [unlock_command])
                    | Hangs \<Rightarrow> (Hangs, sending c [unlock_command]))"
  by (simp add: tool_unlock_def tool_unlock_macro_def then_do_def gcode_hardware ret_def
        split: outcome.splits)

lemma move_to_returns_session:
  "\<not> simulated c \<Longrightarrow> move_to w x y z u s param wait c = (Returns (), c') \<Longrightarrow> session c"
  by (auto simp: move_to_def set_absolute_positioning_def gcode_def then_do_def
      split: if_splits outcome.splits prod.splits)

lemma pickup_unfold:
  assumes "\<not> simulated c" and "tool_parking_positions c index = Some pos"
    and "z = (case z_arg of Some v \<Rightarrow> v | None \<Rightarrow> z_park pos)"
  shows "pickup_tool_sequence w index z_arg speed c =
     then_do (move_to w (Some (x_park pos)) (Some (y_clear pos)) (Some z) None (Some speed) None True) (\<lambda>r1.
     then_do (move_to w (Some (x_park pos)) (Some (y_park pos)) (Some z) None (Some speed) None True) (\<lambda>r2.
     then_do (tool_lock w) (\<lambda>r3.
     move_to w (Some (x_park pos)) (Some (y_clear pos)) (Some z) None (Some speed) None True))) c"
  using assms by (simp add: pickup_tool_sequence_def Let_def)

lemma park_unfold:
  assumes "\<not> simulated c" and "tool_parking_positions c index = Some pos"
    and "z = (case z_arg of Some v \<Rightarrow> v | None \<Rightarrow> z_park pos)"
  shows "park_tool_sequence w index z_arg speed c =
     then_do (move_to w (Some (x_park pos)) (Some (y_clear pos)) (Some z) None (Some speed) None True) (\<lambda>r1.
     then_do (move_to w (Some (x_park pos)) (Some (y_park pos)) (Some z) None (Some speed) None True) (\<lambda>r2.
     then_do (tool_unlock w) (\<lambda>r3.
     move_to w (Some (x_park pos)) (Some (y_clear pos)) (Some z) None (Some speed) None True))) c"
  using assms by (simp add: park_tool_sequence_def Let_def)

text \<open>Four statements in a row: how the sequence returns and how it raises.\<close>

lemma four_steps_returns:
  "then_do m1 (\<lambda>r1. then_do m2 (\<lambda>r2. then_do m3 (\<lambda>r3. m4))) c = (Returns (), c') \<longleftrightarrow>
   (\<exists>c1 c2 c3. m1 c = (Returns (), c1) \<and> m2 c1 = (Returns (), c2) \<and>
                m3 c2 = (Returns (), c3) \<and> m4 c3 = (Returns (), c'))"
  by (auto simp: then_do_def split: outcome.splits prod.splits)

lemma four_steps_raises:
  "then_do m1 (\<lambda>r1. then_do m2 (\<lambda>r2. then_do m3 (\<lambda>r3. m4))) c = (Raises e, c') \<longleftrightarrow>
   m1 c = (Raises e, c') \<or>
   (\<exists>c1. m1 c = (Returns (), c1) \<and> m2 c1 = (Raises e, c')) \<or>
   (\<exists>c1 c2. m1 c = (Returns (), c1) \<and> m2 c1 = (Returns (), c2) \<and> m3 c2 = (Raises e, c')) \<or>
   (\<exists>c1 c2 c3. m1 c = (Returns (), c1) \<and> m2 c1 = (Returns (), c2) \<and>
                m3 c2 = (Returns (), c3) \<and> m4 c3 = (Raises e, c'))"
  by (auto simp: then_do_def split: outcome.splits prod.splits)

lemma exchange_returns:
  assumes "\<not> simulated c"
    and step: "\<And>c2 c3. \<not> simulated c2 \<Longrightarrow> session c2 \<Longrightarrow> m3 c2 = (Returns (), c3) \<Longrightarrow>
                 c3 = sending c2 [cmd3]"
    and run: "then_do (move_to w xa ya za None sa None True) (\<lambda>r1.
              then_do (move_to w xb yb zb None sb None True) (\<lambda>r2.
              then_do m3 (\<lambda>r3. move_to w xa ya za None sa None True))) c = (Returns (), c')"
  shows "wire c' = wire c @ move_commands xa ya za None sa None @
           move_commands xb yb zb None sb None @ [cmd3] @ move_commands xa ya za None sa None"
proof -
  let ?A = "move_to w xa ya za None sa None True"
  let ?B = "move_to w xb yb zb None sb None True"
  from run obtain c1 c2 c3 where
    s1: "?A c = (Returns (), c1)" and s2: "?B c1 = (Returns (), c2)" and
    s3: "m3 c2 = (Returns (), c3)" and s4: "?A c3 = (Returns (), c')"
    unfolding four_steps_returns by blast
  have k1: "\<not> simulated c1" "session c1"
    using move_to_keeps [OF s1] move_to_returns_session [OF assms(1) s1] assms(1) by auto
  have k2: "\<not> simulated c2" "session c2"
    using move_to_keeps [OF s2] k1 by auto
  have w1: "wire c1 = wire c @ move_commands xa ya za None sa None"
    using move_to_returns [OF assms(1) s1] by simp
  have w2: "wire c2 = wire c1 @ move_commands xb yb zb None sb None"
    using move_to_returns [OF k1(1) s2] by simp
  have c3: "c3 = sending c2 [cmd3]"
    using step [OF k2 s3] .
  then have k3: "\<not> simulated c3" using k2 by simp
  have w4: "wire c' = wire c3 @ move_commands xa ya za None sa None"
    using move_to_returns [OF k3 s4] by simp
  show ?thesis using w1 w2 c3 w4 by simp
qed

lemma pickup_returns:
  assumes "\<not> simulated c" and "tool_parking_positions c index = Some pos"
    and "z = (case z_arg of Some v \<Rightarrow> v | None \<Rightarrow> z_park pos)"
    and "pickup_tool_sequence w index z_arg speed c = (Returns (), c')"
  shows "wire c' = wire c @
     move_commands (Some (x_park pos)) (Some (y_clear pos)) (Some z) None (Some speed) None @
     move_commands (Some (x_park pos)) (Some (y_park pos)) (Some z) None (Some speed) None @
     [lock_command] @
     move_commands (Some (x_park pos)) (Some (y_clear pos)) (Some z) None (Some speed) None"
proof (rule exchange_returns [OF assms(1)])
  show "\<And>c2 c3. \<not> simulated c2 \<Longrightarrow> session c2 \<Longrightarrow> tool_lock w c2 = (Returns (), c3) \<Longrightarrow>
          c3 = sending c2 [lock_command]"
    by (simp add: tool_lock_hardware split: outcome.splits)
  show "then_do (move_to w (Some (x_park pos)) (Some (y_clear pos)) (Some z) None (Some speed) None True) (\<lambda>r1.
        then_do (move_to w (Some (x_park pos)) (Some (y_park pos)) (Some z) None (Some speed) None True) (\<lambda>r2.
        then_do (tool_lock w) (\<lambda>r3.
        move_to w (Some (x_park pos)) (Some (y_clear pos)) (Some z) None (Some speed) None True))) c =
        (Returns (), c')"
    using assms(4) unfolding pickup_unfold [OF assms(1,2,3)] .
qed

lemma park_returns:
  assumes "\<not> simulated c" and "tool_parking_positions c index = Some pos"
    and "z = (case z_arg of Some v \<Rightarrow> v | None \<Rightarrow> z_park pos)"
    and "park_tool_sequence w index z_arg speed c = (Returns (), c')"
  shows "wire c' = wire c @
     move_commands (Some (x_park pos)) (Some (y_clear pos)) (Some z) None (Some speed) None @
     move_commands (Some (x_park pos)) (Some (y_park pos)) (Some z) None (Some speed) None @
     [unlock_command] @
     move_commands (Some (x_park pos)) (Some (y_clear pos)) (Some z) None (Some speed) None"
proof (rule exchange_returns [OF assms(1)])
  show "\<And>c2 c3. \<not> simulated c2 \<Longrightarrow> session c2 \<Longrightarrow> tool_unlock w c2 = (Returns (), c3) \<Longrightarrow>
          c3 = sending c2 [unlock_command]"
    by (simp add: tool_unlock_hardware split: outcome.splits)
  show "then_do (move_to w (Some (x_park pos)) (Some (y_clear pos)) (Some z) None (Some speed) None True) (\<lambda>r1.
        then_do (move_to w (Some (x_park pos)) (Some (y_park pos)) (Some z) None (Some speed) None True) (\<lambda>r2.
        then_do (tool_unlock w) (\<lambda>r3.
        move_to w (Some (x_park pos)) (Some (y_clear pos)) (Some z) None (Some speed) None True))) c =
        (Returns (), c')"
    using assms(4) unfolding park_unfold [OF assms(1,2,3)] .
qed

lemma wire_hardware: "wire hardware = []"
  by (simp add: hardware_def)

lemma approach_0: "g0_command (Some (Fin 277)) (Some (Fin 280)) (Some (Fin 150)) None (Some (Fin 6000)) None = ''G0 X277.00 Y280.00 Z150.00 F6000.00''"
  by (simp add: cmd_parts_def g0_command_def fixed_2_def round_half_even_def digit_def str_nat.simps)

lemma engage_0: "g0_command (Some (Fin 277)) (Some (Fin 342)) (Some (Fin 150)) None (Some (Fin 6000)) None = ''G0 X277.00 Y342.00 Z150.00 F6000.00''"
  by (simp add: cmd_parts_def g0_command_def fixed_2_def round_half_even_def digit_def str_nat.simps)

lemma pickup_0_bench:
  "pickup_tool_sequence bench 0 None (Fin 6000) hardware =
     (Returns (),
      hardware\<lparr>wire :=
        [''G90'', homed_query, ''G0 X277.00 Y280.00 Z150.00 F6000.00'', ''M400'',
         ''G90'', homed_query, ''G0 X277.00 Y342.00 Z150.00 F6000.00'', ''M400'',
         lock_command,
         ''G90'', homed_query, ''G0 X277.00 Y280.00 Z150.00 F6000.00'', ''M400'']\<rparr>)"
  by (simp add: fixtures ops transport_def approach_0 engage_0 Let_def)

lemma park_0_bench:
  "park_tool_sequence bench 0 None (Fin 6000) hardware =
     (Returns (),
      hardware\<lparr>wire :=
        [''G90'', homed_query, ''G0 X277.00 Y280.00 Z150.00 F6000.00'', ''M400'',
         ''G90'', homed_query, ''G0 X277.00 Y342.00 Z150.00 F6000.00'', ''M400'',
         unlock_command,
         ''G90'', homed_query, ''G0 X277.00 Y280.00 Z150.00 F6000.00'', ''M400'']\<rparr>)"
  by (simp add: fixtures ops transport_def approach_0 engage_0 Let_def)

lemma pickup_0_override:
  "wire (snd (pickup_tool_sequence bench 0 (Some (Fin 120)) (Fin 6000) hardware)) =
        [''G90'', homed_query, ''G0 X277.00 Y280.00 Z120.00 F6000.00'', ''M400'',
         ''G90'', homed_query, ''G0 X277.00 Y342.00 Z120.00 F6000.00'', ''M400'',
         lock_command,
         ''G90'', homed_query, ''G0 X277.00 Y280.00 Z120.00 F6000.00'', ''M400'']"
  by (simp add: fixtures ops transport_def cmd_parts_def g0_command_def fixed_2_def Let_def
        round_half_even_def digit_def str_nat.simps)

lemma pickup_0_lock_fails:
  "pickup_tool_sequence bench_lock_fails 0 None (Fin 6000) hardware =
     (Raises OtherException,
      hardware\<lparr>wire :=
        [''G90'', homed_query, ''G0 X277.00 Y280.00 Z150.00 F6000.00'', ''M400'',
         ''G90'', homed_query, ''G0 X277.00 Y342.00 Z150.00 F6000.00'', ''M400'',
         lock_command]\<rparr>)"
  by (simp add: fixtures ops transport_def approach_0 engage_0 Let_def)


text \<open>
  C6. The claim: every successful \<^verbatim>\<open>pickup_tool_sequence\<close> issues exactly four
  motion-related actions (approach, engage, lock, retract).

  On a simulated controller the sequence returns at once: it succeeds and issues
  nothing.
\<close>

theorem pickup_issues_four_actions_counterexample:
  "pickup_tool_sequence bench 0 None (Fin 6000) simulator = (Returns (), simulator) \<and>
   wire simulator = []"
  by (simp add: pickup_tool_sequence_def simulator_def hardware_def)

text \<open>
  C6, amended. On a non-simulated controller, for a tool with parking geometry \<open>pos\<close>
  and \<open>z\<close> the override if one is given and \<open>z_park pos\<close> otherwise:
  \<^item> a \<^verbatim>\<open>pickup_tool_sequence\<close> that returns has sent, in this order, the commands of
    a move to \<open>(x_park, y_clear, z)\<close>, of a move to \<open>(x_park, y_park, z)\<close>, the lock
    macro, and the commands of a move to \<open>(x_park, y_clear, z)\<close>: exactly four
    motion-related commands;
  \<^item> it raises \<open>e\<close> in state \<open>c'\<close> exactly when one of its four steps, run after the
    steps before it have returned, raises \<open>e\<close> in \<open>c'\<close>: the error is the step's own
    and no later step runs;
  \<^item> in particular, when the lock macro fails, the lock command is the last command
    on the wire: no retract is sent.
\<close>

theorem pickup_tool_sequence_steps:
  assumes "\<not> simulated c" and "tool_parking_positions c index = Some pos"
    and "z = (case z_arg of Some v \<Rightarrow> v | None \<Rightarrow> z_park pos)"
    and "approach = move_to w (Some (x_park pos)) (Some (y_clear pos)) (Some z) None (Some speed) None True"
    and "engage = move_to w (Some (x_park pos)) (Some (y_park pos)) (Some z) None (Some speed) None True"
    and "approach_cmd = g0_command (Some (x_park pos)) (Some (y_clear pos)) (Some z) None (Some speed) None"
    and "engage_cmd = g0_command (Some (x_park pos)) (Some (y_park pos)) (Some z) None (Some speed) None"
  shows
    "(pickup_tool_sequence w index z_arg speed c = (Returns (), c') \<longrightarrow>
        wire c' = wire c @
          [''G90'', homed_query, approach_cmd, ''M400'',
           ''G90'', homed_query, engage_cmd, ''M400'',
           lock_command,
           ''G90'', homed_query, approach_cmd, ''M400''] \<and>
        filter motion_related (drop (length (wire c)) (wire c')) =
          [approach_cmd, engage_cmd, lock_command, approach_cmd]) \<and>
     (pickup_tool_sequence w index z_arg speed c = (Raises e, c') \<longleftrightarrow>
        approach c = (Raises e, c') \<or>
        (\<exists>c1. approach c = (Returns (), c1) \<and> engage c1 = (Raises e, c')) \<or>
        (\<exists>c1 c2. approach c = (Returns (), c1) \<and> engage c1 = (Returns (), c2) \<and>
                  tool_lock w c2 = (Raises e, c')) \<or>
        (\<exists>c1 c2 c3. approach c = (Returns (), c1) \<and> engage c1 = (Returns (), c2) \<and>
                     tool_lock w c2 = (Returns (), c3) \<and> approach c3 = (Raises e, c'))) \<and>
     (\<forall>c1 c2. approach c = (Returns (), c1) \<longrightarrow> engage c1 = (Returns (), c2) \<longrightarrow>
        tool_lock w c2 = (Raises e, c') \<longrightarrow>
        wire c' = wire c @
          [''G90'', homed_query, approach_cmd, ''M400'',
           ''G90'', homed_query, engage_cmd, ''M400'',
           lock_command])"
proof (intro conjI allI impI)
  assume ok: "pickup_tool_sequence w index z_arg speed c = (Returns (), c')"
  show w: "wire c' = wire c @
          [''G90'', homed_query, approach_cmd, ''M400'',
           ''G90'', homed_query, engage_cmd, ''M400'',
           lock_command,
           ''G90'', homed_query, approach_cmd, ''M400'']"
    using pickup_returns [OF assms(1,2,3) ok] assms(6,7) by (simp add: move_commands_def)
  show "filter motion_related (drop (length (wire c)) (wire c')) =
          [approach_cmd, engage_cmd, lock_command, approach_cmd]"
    unfolding w using assms(6,7) by simp
next
  show "pickup_tool_sequence w index z_arg speed c = (Raises e, c') \<longleftrightarrow>
        approach c = (Raises e, c') \<or>
        (\<exists>c1. approach c = (Returns (), c1) \<and> engage c1 = (Raises e, c')) \<or>
        (\<exists>c1 c2. approach c = (Returns (), c1) \<and> engage c1 = (Returns (), c2) \<and>
                  tool_lock w c2 = (Raises e, c')) \<or>
        (\<exists>c1 c2 c3. approach c = (Returns (), c1) \<and> engage c1 = (Returns (), c2) \<and>
                     tool_lock w c2 = (Returns (), c3) \<and> approach c3 = (Raises e, c'))"
    unfolding pickup_unfold [OF assms(1,2,3)] four_steps_raises assms(4,5) ..
next
  fix c1 c2
  assume s1: "approach c = (Returns (), c1)" and s2: "engage c1 = (Returns (), c2)"
    and s3: "tool_lock w c2 = (Raises e, c')"
  have k1: "\<not> simulated c1" "session c1"
    using move_to_keeps [OF s1 [unfolded assms(4)]]
      move_to_returns_session [OF assms(1) s1 [unfolded assms(4)]] assms(1) by auto
  have k2: "\<not> simulated c2" "session c2"
    using move_to_keeps [OF s2 [unfolded assms(5)]] k1 by auto
  have w1: "wire c1 = wire c @ [''G90'', homed_query, approach_cmd, ''M400'']"
    using move_to_returns [OF assms(1) s1 [unfolded assms(4)]] assms(6)
    by (simp add: move_commands_def)
  have w2: "wire c2 = wire c1 @ [''G90'', homed_query, engage_cmd, ''M400'']"
    using move_to_returns [OF k1(1) s2 [unfolded assms(5)]] assms(7)
    by (simp add: move_commands_def)
  have "c' = sending c2 [lock_command]"
    using s3 k2 by (simp add: tool_lock_hardware split: outcome.splits)
  then show "wire c' = wire c @
          [''G90'', homed_query, approach_cmd, ''M400'',
           ''G90'', homed_query, engage_cmd, ''M400'',
           lock_command]"
    using w1 w2 by simp
qed

theorem pickup_tool_sequence_steps_witness:
  "pickup_tool_sequence bench 0 None (Fin 6000) hardware =
     (Returns (),
      hardware\<lparr>wire :=
        [''G90'', homed_query, ''G0 X277.00 Y280.00 Z150.00 F6000.00'', ''M400'',
         ''G90'', homed_query, ''G0 X277.00 Y342.00 Z150.00 F6000.00'', ''M400'',
         lock_command,
         ''G90'', homed_query, ''G0 X277.00 Y280.00 Z150.00 F6000.00'', ''M400'']\<rparr>) \<and>
   filter motion_related
     (drop (length (wire hardware)) (wire (snd (pickup_tool_sequence bench 0 None (Fin 6000) hardware)))) =
     [''G0 X277.00 Y280.00 Z150.00 F6000.00'', ''G0 X277.00 Y342.00 Z150.00 F6000.00'',
      lock_command, ''G0 X277.00 Y280.00 Z150.00 F6000.00''] \<and>
   pickup_tool_sequence bench_lock_fails 0 None (Fin 6000) hardware =
     (Raises OtherException,
      hardware\<lparr>wire :=
        [''G90'', homed_query, ''G0 X277.00 Y280.00 Z150.00 F6000.00'', ''M400'',
         ''G90'', homed_query, ''G0 X277.00 Y342.00 Z150.00 F6000.00'', ''M400'',
         lock_command]\<rparr>) \<and>
   wire (snd (pickup_tool_sequence bench 0 (Some (Fin 120)) (Fin 6000) hardware)) =
        [''G90'', homed_query, ''G0 X277.00 Y280.00 Z120.00 F6000.00'', ''M400'',
         ''G90'', homed_query, ''G0 X277.00 Y342.00 Z120.00 F6000.00'', ''M400'',
         lock_command,
         ''G90'', homed_query, ''G0 X277.00 Y280.00 Z120.00 F6000.00'', ''M400'']"
proof -
  have hw: "\<not> simulated hardware"
    by (simp add: hardware_def)
  have pos: "tool_parking_positions hardware 0 =
               Some \<lparr>x_park = Fin 277, y_clear = Fin 280, y_park = Fin 342, z_park = Fin 150\<rparr>"
    by (simp add: hardware_def default_parking_def)
  let ?picked = "snd (pickup_tool_sequence bench 0 None (Fin 6000) hardware)"
  have ok: "pickup_tool_sequence bench 0 None (Fin 6000) hardware = (Returns (), ?picked)"
    by (simp add: pickup_0_bench)
  have "pickup_tool_sequence bench 0 None (Fin 6000) hardware = (Returns (), ?picked) \<longrightarrow>
        wire ?picked = wire hardware @
          [''G90'', homed_query,
           g0_command (Some (x_park \<lparr>x_park = Fin 277, y_clear = Fin 280, y_park = Fin 342, z_park = Fin 150\<rparr>))
             (Some (y_clear \<lparr>x_park = Fin 277, y_clear = Fin 280, y_park = Fin 342, z_park = Fin 150\<rparr>))
             (Some (case None of Some v \<Rightarrow> v
                    | None \<Rightarrow> z_park \<lparr>x_park = Fin 277, y_clear = Fin 280, y_park = Fin 342, z_park = Fin 150\<rparr>))
             None (Some (Fin 6000)) None, ''M400'',
           ''G90'', homed_query,
           g0_command (Some (x_park \<lparr>x_park = Fin 277, y_clear = Fin 280, y_park = Fin 342, z_park = Fin 150\<rparr>))
             (Some (y_park \<lparr>x_park = Fin 277, y_clear = Fin 280, y_park = Fin 342, z_park = Fin 150\<rparr>))
             (Some (case None of Some v \<Rightarrow> v
                    | None \<Rightarrow> z_park \<lparr>x_park = Fin 277, y_clear = Fin 280, y_park = Fin 342, z_park = Fin 150\<rparr>))
             None (Some (Fin 6000)) None, ''M400'',
           lock_command,
           ''G90'', homed_query,
           g0_command (Some (x_park \<lparr>x_park = Fin 277, y_clear = Fin 280, y_park = Fin 342, z_park = Fin 150\<rparr>))
             (Some (y_clear \<lparr>x_park = Fin 277, y_clear = Fin 280, y_park = Fin 342, z_park = Fin 150\<rparr>))
             (Some (case None of Some v \<Rightarrow> v
                    | None \<Rightarrow> z_park \<lparr>x_park = Fin 277, y_clear = Fin 280, y_park = Fin 342, z_park = Fin 150\<rparr>))
             None (Some (Fin 6000)) None, ''M400''] \<and>
        filter motion_related (drop (length (wire hardware)) (wire ?picked)) =
          [g0_command (Some (x_park \<lparr>x_park = Fin 277, y_clear = Fin 280, y_park = Fin 342, z_park = Fin 150\<rparr>))
             (Some (y_clear \<lparr>x_park = Fin 277, y_clear = Fin 280, y_park = Fin 342, z_park = Fin 150\<rparr>))
             (Some (case None of Some v \<Rightarrow> v
                    | None \<Rightarrow> z_park \<lparr>x_park = Fin 277, y_clear = Fin 280, y_park = Fin 342, z_park = Fin 150\<rparr>))
             None (Some (Fin 6000)) None,
           g0_command (Some (x_park \<lparr>x_park = Fin 277, y_clear = Fin 280, y_park = Fin 342, z_park = Fin 150\<rparr>))
             (Some (y_park \<lparr>x_park = Fin 277, y_clear = Fin 280, y_park = Fin 342, z_park = Fin 150\<rparr>))
             (Some (case None of Some v \<Rightarrow> v
                    | None \<Rightarrow> z_park \<lparr>x_park = Fin 277, y_clear = Fin 280, y_park = Fin 342, z_park = Fin 150\<rparr>))
             None (Some (Fin 6000)) None,
           lock_command,
           g0_command (Some (x_park \<lparr>x_park = Fin 277, y_clear = Fin 280, y_park = Fin 342, z_park = Fin 150\<rparr>))
             (Some (y_clear \<lparr>x_park = Fin 277, y_clear = Fin 280, y_park = Fin 342, z_park = Fin 150\<rparr>))
             (Some (case None of Some v \<Rightarrow> v
                    | None \<Rightarrow> z_park \<lparr>x_park = Fin 277, y_clear = Fin 280, y_park = Fin 342, z_park = Fin 150\<rparr>))
             None (Some (Fin 6000)) None]"
    by (rule pickup_tool_sequence_steps
          [OF hw pos refl refl refl refl refl, where e = OtherException, THEN conjunct1])
  with ok have "filter motion_related (drop (length (wire hardware)) (wire ?picked)) =
     [''G0 X277.00 Y280.00 Z150.00 F6000.00'', ''G0 X277.00 Y342.00 Z150.00 F6000.00'',
      lock_command, ''G0 X277.00 Y280.00 Z150.00 F6000.00'']"
    by (simp add: approach_0 engage_0 motion_related_def lock_command_def homed_query_def)
  then show ?thesis
    by (simp add: pickup_0_bench pickup_0_lock_fails pickup_0_override)
qed

text \<open>
  The exchange of the two macros commutes with every step of a tool sequence: a step run
  against the mirrored board from the mirrored state ends as the step itself, with the
  exchange applied to its wire.
\<close>

lemma swap_lock_swap_lock [simp]: "swap_lock (swap_lock cmd) = cmd"
  by (simp add: swap_lock_def lock_command_def unlock_command_def)

lemma swap_lock_comp [simp]: "swap_lock \<circ> swap_lock = id"
  by (rule ext) simp

lemma simulated_reply_swap_lock [simp]: "simulated_reply (swap_lock cmd) = simulated_reply cmd"
  by (simp add: swap_lock_def simulated_reply_def lock_command_def unlock_command_def)

lemma swap_lock_simps [simp]:
  "swap_lock lock_command = unlock_command" "swap_lock unlock_command = lock_command"
  "swap_lock ''G90'' = ''G90''" "swap_lock ''M400'' = ''M400''"
  "swap_lock homed_query = homed_query"
  "swap_lock (g0_command x y z u s param) = g0_command x y z u s param"
  by (simp_all add: swap_lock_def lock_command_def unlock_command_def homed_query_def
        g0_command_def)

lemma mirror_wire_fields [simp]:
  "simulated (mirror_wire c) = simulated c" "session (mirror_wire c) = session c"
  "crash_detection (mirror_wire c) = crash_detection c"
  "absolute_positioning (mirror_wire c) = absolute_positioning c"
  "axis_limits (mirror_wire c) = axis_limits c" "axes_homed (mirror_wire c) = axes_homed c"
  "tool_parking_positions (mirror_wire c) = tool_parking_positions c"
  "wire (mirror_wire c) = map swap_lock (wire c)"
  by (simp_all add: mirror_wire_def)

lemma mirror_board_fields [simp]:
  "json_loads (mirror_board w) = json_loads w" "py_float (mirror_board w) = py_float w"
  "py_str (mirror_board w) = py_str w" "round64 (mirror_board w) = round64 w"
  "board (mirror_board w) sent cmd = board w (map swap_lock sent) (swap_lock cmd)"
  by (simp_all add: mirror_board_def)

lemma gcode_mirror:
  "gcode (mirror_board w) (swap_lock cmd) rw (mirror_wire c) = apsnd mirror_wire (gcode w cmd rw c)"
  by (simp add: gcode_def mirror_wire_def)

lemma then_do_mirror:
  assumes "\<And>c. m' (mirror_wire c) = apsnd mirror_wire (m c)"
    and "\<And>a c. f' a (mirror_wire c) = apsnd mirror_wire (f a c)"
  shows "then_do m' f' (mirror_wire c) = apsnd mirror_wire (then_do m f c)"
  using assms by (simp add: then_do_def split: prod.splits outcome.splits)

lemma except_as_mirror:
  assumes "\<And>c. m' (mirror_wire c) = apsnd mirror_wire (m c)"
    and "\<And>a c. h' a (mirror_wire c) = apsnd mirror_wire (h a c)"
  shows "except_as m' h' (mirror_wire c) = apsnd mirror_wire (except_as m h c)"
  using assms by (simp add: except_as_def split: prod.splits outcome.splits)

lemma ret_mirror: "ret a (mirror_wire c) = apsnd mirror_wire (ret a c)"
  by (simp add: ret_def)

lemma raise_mirror: "raise e (mirror_wire c) = apsnd mirror_wire (raise e c)"
  by (simp add: raise_def)

lemma set_absolute_positioning_mirror:
  "set_absolute_positioning (mirror_board w) (mirror_wire c) =
     apsnd mirror_wire (set_absolute_positioning w c)"
  using gcode_mirror [of w "''G90''" 60 c]
  by (simp add: set_absolute_positioning_def then_do_def mirror_wire_def
      split: prod.splits outcome.splits)

lemma check_axis_limits_mirror:
  "check_axis_limits (mirror_board w) target False (mirror_wire c) =
     apsnd mirror_wire (check_axis_limits w target False c)"
  by (simp add: check_axis_limits_def then_do_def ret_def split: option.splits)

lemma query_homed_mirror:
  "query_homed (mirror_board w) (mirror_wire c) = apsnd mirror_wire (query_homed w c)"
  unfolding query_homed_def
  apply (rule then_do_mirror)
  using gcode_mirror [of w homed_query 60] apply simp
  apply (simp add: ret_mirror raise_mirror split: option.splits)
  done


lemma swap_lock_G0 [simp]: "swap_lock (''G0 X'' @ rest) = ''G0 X'' @ rest"
  by (simp add: swap_lock_def lock_command_def unlock_command_def)

lemma machine_homed_mirror:
  assumes "\<And>c. func' (mirror_wire c) = apsnd mirror_wire (func c)"
  shows "machine_homed (mirror_board w) func' (mirror_wire c) =
           apsnd mirror_wire (machine_homed w func c)"
proof (cases "simulated c")
  case True
  then show ?thesis by (simp add: machine_homed_def assms)
next
  case False
  have "then_do
         (except_as (query_homed (mirror_board w)) (\<lambda>e. raise (JubileeStateError UnableToCheckHoming)))
         (\<lambda>homed. case first_four homed of
              None \<Rightarrow> raise OtherException
            | Some flags \<Rightarrow>
                if \<not> list_all truthy flags then raise (JubileeStateError MustBeHomed)
                else func') (mirror_wire c) =
        apsnd mirror_wire (then_do
         (except_as (query_homed w) (\<lambda>e. raise (JubileeStateError UnableToCheckHoming)))
         (\<lambda>homed. case first_four homed of
              None \<Rightarrow> raise OtherException
            | Some flags \<Rightarrow>
                if \<not> list_all truthy flags then raise (JubileeStateError MustBeHomed)
                else func) c)"
    by (rule then_do_mirror, rule except_as_mirror)
       (simp_all add: query_homed_mirror raise_mirror assms split: option.splits)
  with False show ?thesis by (simp add: machine_homed_def)
qed

lemma wait_for_moves_mirror:
  "wait_for_moves (mirror_board w) wait (mirror_wire c) =
     apsnd mirror_wire (wait_for_moves w wait c)"
  using gcode_mirror [of w "''M400''" 60 c]
  by (simp add: wait_for_moves_def then_do_def ret_def split: prod.splits outcome.splits)

lemma move_xyzu_body_mirror:
  "move_xyzu_body (mirror_board w) x y z u s param wait (mirror_wire c) =
     apsnd mirror_wire (move_xyzu_body w x y z u s param wait c)"
proof (cases "simulated c")
  case True
  have "then_do
            (gcode (mirror_board w) (''G0 X'' @ py_str w x @ '' Y'' @ py_str w y @ '' Z'' @ py_str w z @
                      '' U'' @ py_str w u @ '' F'' @ py_str w s) 60)
            (\<lambda>r. wait_for_moves (mirror_board w) wait) (mirror_wire c) =
        apsnd mirror_wire (then_do
            (gcode w (''G0 X'' @ py_str w x @ '' Y'' @ py_str w y @ '' Z'' @ py_str w z @
                      '' U'' @ py_str w u @ '' F'' @ py_str w s) 60)
            (\<lambda>r. wait_for_moves w wait) c)"
    apply (rule then_do_mirror)
    subgoal for c'
      using gcode_mirror [of w "''G0 X'' @ py_str w x @ '' Y'' @ py_str w y @ '' Z'' @ py_str w z @
                      '' U'' @ py_str w u @ '' F'' @ py_str w s" 60 c']
      by (simp del: append.simps)
    apply (rule wait_for_moves_mirror)
    done
  with True show ?thesis by (simp add: move_xyzu_body_def del: append.simps)
next
  case False
  have "then_do (gcode (mirror_board w) (g0_command x y z u s param) 60)
          (\<lambda>r. wait_for_moves (mirror_board w) wait) (mirror_wire c) =
        apsnd mirror_wire (then_do (gcode w (g0_command x y z u s param) 60)
          (\<lambda>r. wait_for_moves w wait) c)"
    apply (rule then_do_mirror)
    subgoal for c'
      using gcode_mirror [of w "g0_command x y z u s param" 60 c'] by simp
    apply (rule wait_for_moves_mirror)
    done
  with False show ?thesis by (simp add: move_xyzu_body_def)
qed

lemma move_to_mirror:
  "move_to (mirror_board w) x y z u s param wait (mirror_wire c) =
     apsnd mirror_wire (move_to w x y z u s param wait c)"
  unfolding move_to_def move_xyzu_def
  by (intro then_do_mirror set_absolute_positioning_mirror check_axis_limits_mirror
        machine_homed_mirror move_xyzu_body_mirror)

lemma tool_lock_mirror:
  "tool_lock (mirror_board w) (mirror_wire c) = apsnd mirror_wire (tool_unlock w c)"
  using gcode_mirror [of w unlock_command 60 c]
  by (simp add: tool_lock_def tool_unlock_def tool_lock_macro_def tool_unlock_macro_def
        then_do_def ret_def split: prod.splits outcome.splits)

lemma pickup_mirror:
  "pickup_tool_sequence (mirror_board w) index z_arg speed (mirror_wire c) =
     apsnd mirror_wire (park_tool_sequence w index z_arg speed c)"
proof (cases "simulated c")
  case True
  then show ?thesis by (simp add: pickup_tool_sequence_def park_tool_sequence_def)
next
  case False
  show ?thesis
  proof (cases "tool_parking_positions c index")
    case None
    with False show ?thesis by (simp add: pickup_tool_sequence_def park_tool_sequence_def)
  next
    case (Some pos)
    have ns: "\<not> simulated (mirror_wire c)" and tp: "tool_parking_positions (mirror_wire c) index = Some pos"
      using False Some by simp_all
    show ?thesis
      unfolding pickup_unfold [OF ns tp refl] park_unfold [OF False Some refl]
      by (intro then_do_mirror move_to_mirror tool_lock_mirror)
  qed
qed

text \<open>
  C7. The park sequence is the counterpart of the pickup sequence with the unlock macro
  in the place of the lock macro:
  \<^item> for every board, controller state, tool index, override and speed,
    \<^verbatim>\<open>pickup_tool_sequence\<close> run against the mirrored board from the mirrored state ends
    as \<^verbatim>\<open>park_tool_sequence\<close> does on the board itself (it returns, raises the same
    error or does not return), and the commands of the two runs are the same but for
    the two macros, which are exchanged; this covers simulation and a tool without
    parking position, where both do nothing or raise the same error;
  \<^item> a park run that returns on a non-simulated controller has sent the commands of a
    move to \<open>(x_park, y_clear, z)\<close>, of a move to \<open>(x_park, y_park, z)\<close>, the unlock
    macro, and the commands of a move to \<open>(x_park, y_clear, z)\<close>, in this order;
  \<^item> when both sequences return from the same state, the commands of the park run are
    those of the pickup run with the unlock macro for the lock macro, and the moves of
    the park run are the moves of the pickup run in reverse order. The waypoints are
    approach, engage, approach: the list is its own reverse, so the reverse order is
    also the order in which the code of both sequences is written.
\<close>

theorem park_mirrors_pickup:
  "pickup_tool_sequence (mirror_board w) index z_arg speed (mirror_wire c) =
     apsnd mirror_wire (park_tool_sequence w index z_arg speed c) \<and>
   (\<not> simulated c \<longrightarrow> tool_parking_positions c index = Some pos \<longrightarrow>
    park_tool_sequence w index z_arg speed c = (Returns (), parked) \<longrightarrow>
      wire parked = wire c @
        [''G90'', homed_query,
         g0_command (Some (x_park pos)) (Some (y_clear pos))
           (Some (case z_arg of Some v \<Rightarrow> v | None \<Rightarrow> z_park pos)) None (Some speed) None,
         ''M400'',
         ''G90'', homed_query,
         g0_command (Some (x_park pos)) (Some (y_park pos))
           (Some (case z_arg of Some v \<Rightarrow> v | None \<Rightarrow> z_park pos)) None (Some speed) None,
         ''M400'',
         unlock_command,
         ''G90'', homed_query,
         g0_command (Some (x_park pos)) (Some (y_clear pos))
           (Some (case z_arg of Some v \<Rightarrow> v | None \<Rightarrow> z_park pos)) None (Some speed) None,
         ''M400'']) \<and>
   (pickup_tool_sequence w index z_arg speed c = (Returns (), picked) \<longrightarrow>
    park_tool_sequence w index z_arg speed c = (Returns (), parked) \<longrightarrow>
      drop (length (wire c)) (wire parked) =
        map (\<lambda>cmd. if cmd = lock_command then unlock_command else cmd)
          (drop (length (wire c)) (wire picked)) \<and>
      filter is_move (drop (length (wire c)) (wire parked)) =
        rev (filter is_move (drop (length (wire c)) (wire picked))))"
proof (intro conjI impI)
  show "pickup_tool_sequence (mirror_board w) index z_arg speed (mirror_wire c) =
          apsnd mirror_wire (park_tool_sequence w index z_arg speed c)"
    by (rule pickup_mirror)
next
  assume "\<not> simulated c" and "tool_parking_positions c index = Some pos"
    and "park_tool_sequence w index z_arg speed c = (Returns (), parked)"
  then show "wire parked = wire c @
        [''G90'', homed_query,
         g0_command (Some (x_park pos)) (Some (y_clear pos))
           (Some (case z_arg of Some v \<Rightarrow> v | None \<Rightarrow> z_park pos)) None (Some speed) None,
         ''M400'',
         ''G90'', homed_query,
         g0_command (Some (x_park pos)) (Some (y_park pos))
           (Some (case z_arg of Some v \<Rightarrow> v | None \<Rightarrow> z_park pos)) None (Some speed) None,
         ''M400'',
         unlock_command,
         ''G90'', homed_query,
         g0_command (Some (x_park pos)) (Some (y_clear pos))
           (Some (case z_arg of Some v \<Rightarrow> v | None \<Rightarrow> z_park pos)) None (Some speed) None,
         ''M400'']"
    using park_returns [of c index pos _ z_arg w speed parked, OF _ _ refl]
    by (simp add: move_commands_def)
next
  assume ok: "pickup_tool_sequence w index z_arg speed c = (Returns (), picked)"
    "park_tool_sequence w index z_arg speed c = (Returns (), parked)"
  have both: "drop (length (wire c)) (wire parked) =
        map (\<lambda>cmd. if cmd = lock_command then unlock_command else cmd)
          (drop (length (wire c)) (wire picked)) \<and>
      filter is_move (drop (length (wire c)) (wire parked)) =
        rev (filter is_move (drop (length (wire c)) (wire picked)))"
  proof (cases "simulated c")
    case True
    with ok show ?thesis
      by (simp add: pickup_tool_sequence_def park_tool_sequence_def)
  next
    case False
    from ok(1) False obtain p where p: "tool_parking_positions c index = Some p"
      by (auto simp: pickup_tool_sequence_def split: option.splits)
    show ?thesis
      using pickup_returns [OF False p refl ok(1)] park_returns [OF False p refl ok(2)]
      by (simp add: move_commands_def)
  qed
  from both show "drop (length (wire c)) (wire parked) =
        map (\<lambda>cmd. if cmd = lock_command then unlock_command else cmd)
          (drop (length (wire c)) (wire picked))" ..
  from both show "filter is_move (drop (length (wire c)) (wire parked)) =
        rev (filter is_move (drop (length (wire c)) (wire picked)))" ..
qed

theorem park_mirrors_pickup_witness:
  "park_tool_sequence bench 0 None (Fin 6000) hardware =
     (Returns (),
      hardware\<lparr>wire :=
        [''G90'', homed_query, ''G0 X277.00 Y280.00 Z150.00 F6000.00'', ''M400'',
         ''G90'', homed_query, ''G0 X277.00 Y342.00 Z150.00 F6000.00'', ''M400'',
         unlock_command,
         ''G90'', homed_query, ''G0 X277.00 Y280.00 Z150.00 F6000.00'', ''M400'']\<rparr>) \<and>
   pickup_tool_sequence (mirror_board bench) 0 None (Fin 6000) (mirror_wire hardware) =
     (Returns (),
      hardware\<lparr>wire :=
        [''G90'', homed_query, ''G0 X277.00 Y280.00 Z150.00 F6000.00'', ''M400'',
         ''G90'', homed_query, ''G0 X277.00 Y342.00 Z150.00 F6000.00'', ''M400'',
         lock_command,
         ''G90'', homed_query, ''G0 X277.00 Y280.00 Z150.00 F6000.00'', ''M400'']\<rparr>) \<and>
   filter is_move (drop (length (wire hardware))
      (wire (snd (park_tool_sequence bench 0 None (Fin 6000) hardware)))) =
     [''G0 X277.00 Y280.00 Z150.00 F6000.00'', ''G0 X277.00 Y342.00 Z150.00 F6000.00'',
      ''G0 X277.00 Y280.00 Z150.00 F6000.00''] \<and>
   filter is_move (drop (length (wire hardware))
      (wire (snd (park_tool_sequence bench 0 None (Fin 6000) hardware)))) =
     rev (filter is_move (drop (length (wire hardware))
      (wire (snd (pickup_tool_sequence bench 0 None (Fin 6000) hardware)))))"
proof -
  let ?parked = "snd (park_tool_sequence bench 0 None (Fin 6000) hardware)"
  let ?picked = "snd (pickup_tool_sequence bench 0 None (Fin 6000) hardware)"
  let ?pos = "\<lparr>x_park = Fin 277, y_clear = Fin 280, y_park = Fin 342, z_park = Fin 150\<rparr>"
  note all = park_mirrors_pickup
    [where w = bench and index = 0 and z_arg = None and speed = "Fin 6000" and c = hardware
       and pos = ?pos and parked = ?parked and picked = ?picked]
  have hw: "\<not> simulated hardware"
    by (simp add: hardware_def)
  have pos: "tool_parking_positions hardware 0 = Some ?pos"
    by (simp add: hardware_def default_parking_def)
  have park: "park_tool_sequence bench 0 None (Fin 6000) hardware = (Returns (), ?parked)"
    by (simp add: park_0_bench)
  have pick: "pickup_tool_sequence bench 0 None (Fin 6000) hardware = (Returns (), ?picked)"
    by (simp add: pickup_0_bench)
  have mirror: "pickup_tool_sequence (mirror_board bench) 0 None (Fin 6000) (mirror_wire hardware) =
      apsnd mirror_wire (park_tool_sequence bench 0 None (Fin 6000) hardware)"
    using all by (rule conjunct1)
  have sent: "wire ?parked = wire hardware @
        [''G90'', homed_query,
         g0_command (Some (x_park ?pos)) (Some (y_clear ?pos))
           (Some (case None of Some v \<Rightarrow> v | None \<Rightarrow> z_park ?pos)) None (Some (Fin 6000)) None,
         ''M400'',
         ''G90'', homed_query,
         g0_command (Some (x_park ?pos)) (Some (y_park ?pos))
           (Some (case None of Some v \<Rightarrow> v | None \<Rightarrow> z_park ?pos)) None (Some (Fin 6000)) None,
         ''M400'',
         unlock_command,
         ''G90'', homed_query,
         g0_command (Some (x_park ?pos)) (Some (y_clear ?pos))
           (Some (case None of Some v \<Rightarrow> v | None \<Rightarrow> z_park ?pos)) None (Some (Fin 6000)) None,
         ''M400'']"
    using all hw pos park by blast
  have rev: "filter is_move (drop (length (wire hardware)) (wire ?parked)) =
        rev (filter is_move (drop (length (wire hardware)) (wire ?picked)))"
    using all pick park by blast
  have c1: "park_tool_sequence bench 0 None (Fin 6000) hardware =
     (Returns (),
      hardware\<lparr>wire :=
        [''G90'', homed_query, ''G0 X277.00 Y280.00 Z150.00 F6000.00'', ''M400'',
         ''G90'', homed_query, ''G0 X277.00 Y342.00 Z150.00 F6000.00'', ''M400'',
         unlock_command,
         ''G90'', homed_query, ''G0 X277.00 Y280.00 Z150.00 F6000.00'', ''M400'']\<rparr>)"
    by (rule park_0_bench)
  have c2: "pickup_tool_sequence (mirror_board bench) 0 None (Fin 6000) (mirror_wire hardware) =
     (Returns (),
      hardware\<lparr>wire :=
        [''G90'', homed_query, ''G0 X277.00 Y280.00 Z150.00 F6000.00'', ''M400'',
         ''G90'', homed_query, ''G0 X277.00 Y342.00 Z150.00 F6000.00'', ''M400'',
         lock_command,
         ''G90'', homed_query, ''G0 X277.00 Y280.00 Z150.00 F6000.00'', ''M400'']\<rparr>)"
    unfolding mirror c1
    by (simp add: mirror_wire_def swap_lock_def lock_command_def unlock_command_def
          homed_query_def)
  have c3: "filter is_move (drop (length (wire hardware)) (wire ?parked)) =
     [''G0 X277.00 Y280.00 Z150.00 F6000.00'', ''G0 X277.00 Y342.00 Z150.00 F6000.00'',
      ''G0 X277.00 Y280.00 Z150.00 F6000.00'']"
    unfolding sent
    by (simp add: wire_hardware approach_0 engage_0 is_move_def homed_query_def
          unlock_command_def)
  show ?thesis
    using c1 c2 c3 rev by blast
qed

subsection \<open>The move command\<close>

lemma digit_in: "digit n \<in> set ''0123456789''"
  unfolding digit_def by (rule nth_mem) simp

lemma str_nat_digits: "str_nat n \<noteq> [] \<and> set (str_nat n) \<subseteq> set ''0123456789''"
proof (induction n rule: str_nat.induct)
  case (1 n)
  show ?case
  proof (cases "n < 10")
    case True
    then have "str_nat n = [digit n]" by (simp add: str_nat.simps [of n])
    then show ?thesis using digit_in [of n] by simp
  next
    case False
    then have "str_nat n = str_nat (n div 10) @ [digit n]" by (simp add: str_nat.simps [of n])
    then show ?thesis using 1 False digit_in [of n] by simp
  qed
qed

lemma fixed_2_shape:
  "\<exists>ds d1 d2. fixed_2 v = (if v < 0 then ''-'' else []) @ ds @ ''.'' @ [d1, d2] \<and>
      ds \<noteq> [] \<and> set (ds @ [d1, d2]) \<subseteq> set ''0123456789''"
proof -
  let ?n = "nat (round_half_even (\<bar>v\<bar> * 100))"
  have "fixed_2 v = (if v < 0 then ''-'' else []) @ str_nat (?n div 100) @ ''.'' @
          [digit (?n div 10), digit ?n]"
    by (simp add: fixed_2_def)
  moreover have "str_nat (?n div 100) \<noteq> []"
    using str_nat_digits by blast
  moreover have "set (str_nat (?n div 100) @ [digit (?n div 10), digit ?n]) \<subseteq> set ''0123456789''"
    using str_nat_digits [of "?n div 100"] digit_in [of "?n div 10"] digit_in [of ?n]
    by (simp only: set_append set_simps Un_subset_iff insert_subset empty_subsetI simp_thms)
  ultimately show ?thesis by blast
qed

lemma axis_parts_filter:
  "axis_parts target =
     map (\<lambda>(a, v). a @ format_2f (the v)) (filter (\<lambda>(a, v). v \<noteq> None) target)"
  by (induction target rule: axis_parts.induct) simp_all

lemma check_targets_filter:
  "check_targets rnd limits pos relative target =
     check_targets rnd limits pos relative (filter (\<lambda>(a, v). v \<noteq> None) target)"
  by (induction rnd limits pos relative target rule: check_targets.induct)
     (simp_all split: option.splits)

lemma move_xyzu_body_wire:
  assumes "\<not> simulated c" and "session c"
  shows "wire (snd (move_xyzu_body w x y z u s param wait c)) =
     wire c @ g0_command x y z u s param #
       (case answer w c (g0_command x y z u s param) of
          Returns r \<Rightarrow> if wait then [''M400''] else []
        | Raises e \<Rightarrow> []
        | Hangs \<Rightarrow> [])"
  using assms
  by (simp add: move_xyzu_body_def then_do_def gcode_hardware wait_for_moves_def ret_def
        split: outcome.splits)

lemma fixed_2_12_3: "fixed_2 (123 / 10) = ''12.30''"
  by (simp add: fixed_2_def round_half_even_def digit_def str_nat.simps)

lemma fixed_2_eighth: "fixed_2 (1 / 8) = ''0.12''"
  by (simp add: fixed_2_def round_half_even_def digit_def str_nat.simps)

lemma check_axis_limits_filter:
  "check_axis_limits w target relative c =
     check_axis_limits w (filter (\<lambda>(a, v). v \<noteq> None) target) relative c"
  unfolding check_axis_limits_def by (subst check_targets_filter) (rule refl)

lemma move_xyzu_wire:
  assumes "\<not> simulated c" and "session c"
    and "answer w c homed_query = Returns reply"
    and "json_loads w reply = Some doc"
    and "subscript_key doc ''result'' = Some v"
    and "first_four v = Some flags" and "list_all truthy flags"
  shows "wire (snd (move_xyzu w x y z u s param wait c)) =
     wire c @ homed_query # g0_command x y z u s param #
       (case answer w (sending c [homed_query]) (g0_command x y z u s param) of
          Returns r \<Rightarrow> if wait then [''M400''] else []
        | Raises e \<Rightarrow> []
        | Hangs \<Rightarrow> [])"
  using assms
  by (simp add: move_xyzu_def machine_homed_hardware [OF assms(1-6)] move_xyzu_body_wire)

text \<open>
  C8. The claim: for every non-simulated move, each non-null coordinate is emitted with
  exactly two decimal digits, and a null axis is neither emitted nor limit-checked.

  \<^verbatim>\<open>f"{value:.2f}"\<close> gives \<^verbatim>\<open>inf\<close>, \<^verbatim>\<open>-inf\<close> or \<^verbatim>\<open>nan\<close> for a float that is not finite, and
  the values for U and F are never limit-checked: a move of U to infinity is emitted
  as \<^verbatim>\<open>G0 Uinf F6000.00\<close>.
\<close>

theorem move_emits_nonfinite_counterexample:
  "move_to bench None None None (Some PInf) (Some (Fin 6000)) None False hardware =
     (Returns (), hardware\<lparr>wire := [''G90'', homed_query, ''G0 Uinf F6000.00'']\<rparr>)"
  by (simp add: fixtures ops transport_def cmd_parts_def g0_command_def fixed_2_6000)

text \<open>
  C8, amended. Whenever \<^verbatim>\<open>move_to\<close> or \<^verbatim>\<open>move\<close> on a connected, non-simulated controller
  has set its positioning mode and passed the limit check, reaching the gate in state
  \<open>c\<close>, and the homing query reports all axes homed:
  \<^item> the call puts on the wire the homing query and then the move command, followed by
    \<^verbatim>\<open>M400\<close> when the move command was accepted and \<^verbatim>\<open>wait\<close> is set;
  \<^item> the move command is \<^verbatim>\<open>G0\<close> followed by one token, the axis letter and the
    formatted value, for each of X, Y, Z, U and F whose parameter is not null, and by
    no token for a null parameter (then by \<^verbatim>\<open>param\<close> if there is one);
  \<^item> the formatted text of a finite value is a sign, at least one digit, a point and
    exactly two digits, whatever the value; that of negative zero is \<^verbatim>\<open>-0.00\<close>; those
    of the infinities and of NaN are \<^verbatim>\<open>inf\<close>, \<^verbatim>\<open>-inf\<close> and \<^verbatim>\<open>nan\<close>;
  \<^item> the limit check gives the same result with the null targets removed.
  A move to \<open>x = 12.3\<close> emits \<^verbatim>\<open>G0 X12.30 F6000.00\<close>, which contains \<^verbatim>\<open>X12.30\<close> (the
  witness).
\<close>

theorem move_emits_two_decimals:
  assumes "\<not> simulated c" and "session c"
    and "answer w c homed_query = Returns reply"
    and "json_loads w reply = Some doc"
    and "subscript_key doc ''result'' = Some v"
    and "first_four v = Some flags" and "list_all truthy flags"
    and "cmd = g0_command x y z u s param"
    and "sent = homed_query # cmd #
           (case answer w (sending c [homed_query]) cmd of
              Returns r \<Rightarrow> if wait then [''M400''] else []
            | Raises e \<Rightarrow> []
            | Hangs \<Rightarrow> [])"
  shows
    "(set_absolute_positioning w before = (Returns (), moded) \<longrightarrow>
      check_axis_limits w [(''X'', x), (''Y'', y), (''Z'', z)] False moded = (Returns (), c) \<longrightarrow>
      wire (snd (move_to w x y z u s param wait before)) = wire c @ sent) \<and>
     (set_relative_positioning w before = (Returns (), moded) \<longrightarrow>
      check_axis_limits w [(''X'', x), (''Y'', y), (''Z'', z)] True moded = (Returns (), c) \<longrightarrow>
      wire (snd (move w x y z u s param wait before)) = wire c @ sent) \<and>
     cmd =
       ''G0 '' @ join '' ''
         (map (\<lambda>(a, v). a @ format_2f (the v))
            (filter (\<lambda>(a, v). v \<noteq> None)
               [(''X'', x), (''Y'', y), (''Z'', z), (''U'', u), (''F'', s)]) @
          (case param of None \<Rightarrow> [] | Some p \<Rightarrow> if p \<noteq> [] then [p] else [])) \<and>
     (\<forall>r. \<exists>ds d1 d2.
        format_2f (Fin r) = (if r < 0 then ''-'' else []) @ ds @ ''.'' @ [d1, d2] \<and>
        ds \<noteq> [] \<and> set (ds @ [d1, d2]) \<subseteq> set ''0123456789'') \<and>
     format_2f NegZero = ''-0.00'' \<and> format_2f PInf = ''inf'' \<and>
     format_2f NInf = ''-inf'' \<and> format_2f NaN = ''nan'' \<and>
     (\<forall>target relative m.
        check_axis_limits w target relative m =
          check_axis_limits w (filter (\<lambda>(a, v). v \<noteq> None) target) relative m)"
proof (intro conjI impI allI)
  note gate = move_xyzu_wire [OF assms(1-7), of x y z u s param wait]
  show "wire (snd (move_to w x y z u s param wait before)) = wire c @ sent"
    if "set_absolute_positioning w before = (Returns (), moded)"
      and "check_axis_limits w [(''X'', x), (''Y'', y), (''Z'', z)] False moded = (Returns (), c)"
    using that gate assms(8,9) by (simp add: move_to_def then_do_def)
  show "wire (snd (move w x y z u s param wait before)) = wire c @ sent"
    if "set_relative_positioning w before = (Returns (), moded)"
      and "check_axis_limits w [(''X'', x), (''Y'', y), (''Z'', z)] True moded = (Returns (), c)"
    using that gate assms(8,9) by (simp add: move_def then_do_def)
  show "cmd =
       ''G0 '' @ join '' ''
         (map (\<lambda>(a, v). a @ format_2f (the v))
            (filter (\<lambda>(a, v). v \<noteq> None)
               [(''X'', x), (''Y'', y), (''Z'', z), (''U'', u), (''F'', s)]) @
          (case param of None \<Rightarrow> [] | Some p \<Rightarrow> if p \<noteq> [] then [p] else []))"
    unfolding assms(8) g0_command_def cmd_parts_def axis_parts_filter ..
  show "\<exists>ds d1 d2.
        format_2f (Fin r) = (if r < 0 then ''-'' else []) @ ds @ ''.'' @ [d1, d2] \<and>
        ds \<noteq> [] \<and> set (ds @ [d1, d2]) \<subseteq> set ''0123456789''" for r
    using fixed_2_shape [of r] by simp
  show "check_axis_limits w target relative m =
          check_axis_limits w (filter (\<lambda>(a, v). v \<noteq> None) target) relative m"
    for target relative m
    by (rule check_axis_limits_filter)
qed simp_all

theorem move_emits_two_decimals_witness:
  "wire (snd (move_to bench (Some (Fin (123 / 10))) None None None (Some (Fin 6000)) None True hardware)) =
     [''G90'', homed_query, ''G0 X12.30 F6000.00'', ''M400''] \<and>
   contains ''X12.30'' ''G0 X12.30 F6000.00'' \<and>
   wire (snd (move bench (Some (Fin (1 / 8))) None None None None None False hardware)) =
     [''G91'', ''M114'', homed_query, ''G0 X0.12''] \<and>
   wire (snd (move_to bench None None None (Some NInf) (Some NaN) None False hardware)) =
     [''G90'', homed_query, ''G0 U-inf Fnan'']"
proof -
  let ?doc = "JObj [(''result'', JArr [JBool True, JBool True, JBool True, JBool True])]"
  let ?v = "JArr [JBool True, JBool True, JBool True, JBool True]"
  let ?flags = "[JBool True, JBool True, JBool True, JBool True]"
  let ?abs = "hardware\<lparr>wire := [''G90'']\<rparr>"
  let ?rel = "hardware\<lparr>absolute_positioning := False, wire := [''G91'', ''M114'']\<rparr>"
  have a: "wire (snd (move_to bench (Some (Fin (123 / 10))) None None None (Some (Fin 6000)) None True hardware)) =
      wire ?abs @ homed_query #
        g0_command (Some (Fin (123 / 10))) None None None (Some (Fin 6000)) None #
        (case answer bench (sending ?abs [homed_query])
                (g0_command (Some (Fin (123 / 10))) None None None (Some (Fin 6000)) None) of
           Returns r \<Rightarrow> if True then [''M400''] else []
         | Raises e \<Rightarrow> []
         | Hangs \<Rightarrow> [])"
    by (rule move_emits_two_decimals
          [where c = ?abs and w = bench and reply = all_homed_text and doc = ?doc and v = ?v
             and flags = ?flags and before = hardware and moded = ?abs,
           OF _ _ _ _ _ _ _ refl refl, THEN conjunct1, rule_format])
       (simp_all add: fixtures ops answer_def transport_def)
  have b: "wire (snd (move bench (Some (Fin (1 / 8))) None None None None None False hardware)) =
      wire ?rel @ homed_query #
        g0_command (Some (Fin (1 / 8))) None None None None None #
        (case answer bench (sending ?rel [homed_query])
                (g0_command (Some (Fin (1 / 8))) None None None None None) of
           Returns r \<Rightarrow> if False then [''M400''] else []
         | Raises e \<Rightarrow> []
         | Hangs \<Rightarrow> [])"
    by (rule move_emits_two_decimals
          [where c = ?rel and w = bench and reply = all_homed_text and doc = ?doc and v = ?v
             and flags = ?flags and before = hardware
             and moded = "hardware\<lparr>absolute_positioning := False, wire := [''G91'']\<rparr>",
           OF _ _ _ _ _ _ _ refl refl, THEN conjunct2, THEN conjunct1, rule_format])
       (simp_all add: fixtures ops answer_def transport_def bench_position position_response_50)
  have c: "wire (snd (move_to bench None None None (Some NInf) (Some NaN) None False hardware)) =
      wire ?abs @ homed_query #
        g0_command None None None (Some NInf) (Some NaN) None #
        (case answer bench (sending ?abs [homed_query])
                (g0_command None None None (Some NInf) (Some NaN) None) of
           Returns r \<Rightarrow> if False then [''M400''] else []
         | Raises e \<Rightarrow> []
         | Hangs \<Rightarrow> [])"
    by (rule move_emits_two_decimals
          [where c = ?abs and w = bench and reply = all_homed_text and doc = ?doc and v = ?v
             and flags = ?flags and before = hardware and moded = ?abs,
           OF _ _ _ _ _ _ _ refl refl, THEN conjunct1, rule_format])
       (simp_all add: fixtures ops answer_def transport_def)
  have g1: "g0_command (Some (Fin (123 / 10))) None None None (Some (Fin 6000)) None =
              ''G0 X12.30 F6000.00''"
    by (simp add: g0_command_def cmd_parts_def fixed_2_12_3 fixed_2_6000)
  have g2: "g0_command (Some (Fin (1 / 8))) None None None None None = ''G0 X0.12''"
    by (simp add: g0_command_def cmd_parts_def fixed_2_eighth)
  have g3: "g0_command None None None (Some NInf) (Some NaN) None = ''G0 U-inf Fnan''"
    by (simp add: g0_command_def cmd_parts_def)
  have a': "wire (snd (move_to bench (Some (Fin (123 / 10))) None None None (Some (Fin 6000)) None True hardware)) =
     [''G90'', homed_query, ''G0 X12.30 F6000.00'', ''M400'']"
    unfolding a g1
    by (simp add: answer_def sending_def transport_def bench_def answering_def bench_reply_def
          homed_query_def hardware_def)
  have b': "wire (snd (move bench (Some (Fin (1 / 8))) None None None None None False hardware)) =
     [''G91'', ''M114'', homed_query, ''G0 X0.12'']"
    unfolding b g2
    by (simp add: answer_def sending_def transport_def bench_def answering_def bench_reply_def
          homed_query_def hardware_def)
  have c': "wire (snd (move_to bench None None None (Some NInf) (Some NaN) None False hardware)) =
     [''G90'', homed_query, ''G0 U-inf Fnan'']"
    unfolding c g3
    by (simp add: answer_def sending_def transport_def bench_def answering_def bench_reply_def
          homed_query_def hardware_def)
  have d: "contains ''X12.30'' ''G0 X12.30 F6000.00''"
    by simp
  show ?thesis
    using a' b' c' d by blast
qed

subsection \<open>Parsing the position reply\<close>

lemma before_first_prefix: "prefix (before_first sep s) s"
  by (induction s) simp_all

lemma before_first_no_sep: "sep \<noteq> [] \<Longrightarrow> \<not> contains sep (before_first sep s)"
proof (induction s)
  case Nil
  then show ?case by simp
next
  case (Cons c cs)
  show ?case
  proof (cases "prefix sep (c # cs)")
    case True
    with Cons.prems show ?thesis by simp
  next
    case False
    have "prefix (c # before_first sep cs) (c # cs)"
      by (simp add: before_first_prefix)
    then have "\<not> prefix sep (c # before_first sep cs)"
      using False prefix_order.trans by blast
    with False Cons show ?thesis by simp
  qed
qed

lemma before_first_split:
  "contains sep s \<Longrightarrow> s = before_first sep s @ sep @ after_first sep s"
proof (induction s)
  case Nil
  then show ?case by simp
next
  case (Cons c cs)
  show ?case
  proof (cases "prefix sep (c # cs)")
    case True
    then show ?thesis by (auto simp: prefix_def)
  next
    case False
    with Cons show ?thesis by simp
  qed
qed

lemma split_acc_word:
  "set t \<inter> set whitespace = {} \<Longrightarrow> split_acc cur (t @ rest) = split_acc (cur @ t) rest"
  by (induction t arbitrary: cur) auto

lemma space_is_whitespace: "CHR '' '' \<in> set whitespace"
  by (simp add: whitespace_def)

lemma split_acc_space:
  "cur \<noteq> [] \<Longrightarrow> split_acc cur (CHR '' '' # rest) = cur # split_acc [] rest"
  by (simp add: space_is_whitespace)

lemma split_whitespace_join:
  "list_all (\<lambda>t. t \<noteq> [] \<and> set t \<inter> set whitespace = {}) ts \<Longrightarrow>
   split_whitespace (join '' '' ts) = ts"
proof (induction "'' ''" ts rule: join.induct)
  case 1
  then show ?case by (simp add: split_whitespace_def)
next
  case (2 p)
  then show ?case
    using split_acc_word [of p "[]" "[]"] by (simp add: split_whitespace_def)
next
  case (3 p q ps)
  then show ?case
    using split_acc_word [of p "[]" "'' '' @ join '' '' (q # ps)"]
    by (simp add: split_whitespace_def space_is_whitespace)
qed

lemma split_acc_tokens:
  "set cur \<inter> set whitespace = {} \<Longrightarrow> t \<in> set (split_acc cur s) \<Longrightarrow>
   t \<noteq> [] \<and> set t \<inter> set whitespace = {}"
  by (induction cur s rule: split_acc.induct) (auto split: if_splits)

lemma parse_elements_lookup:
  "parse_elements to_float positions ts axis =
     (case filter (\<lambda>t. CHR '':'' \<in> set t \<and> before_first '':'' t = axis) ts of
        [] \<Rightarrow> positions axis
      | m # ms \<Rightarrow> Some (to_float (after_first '':'' (last (m # ms)))))"
proof (induction ts arbitrary: positions)
  case Nil
  then show ?case by simp
next
  case (Cons t ts)
  show ?case
    by (simp add: Cons split: list.splits)
qed

text \<open>
  C9. The claim: a token whose value fails the numeric parse is recorded as absent from
  the mapping.

  \<^verbatim>\<open>positions[axis] = None\<close> stores the key: the axis is in the mapping, with the value
  \<^verbatim>\<open>None\<close>.
\<close>

theorem parse_failure_absent_counterexample:
  "bench_float ''abc'' = None \<and>
   ''X'' \<in> dom (parse_position bench_float ''X:abc Y:2.00 Count 0 0 0 0'') \<and>
   parse_position bench_float ''X:abc Y:2.00 Count 0 0 0 0'' ''X'' = Some None"
  by (simp add: parse_position_def split_whitespace_def whitespace_def bench_float_def dom_def)

text \<open>
  C9, amended. For every reply text, the parser keeps the text before the first
  occurrence of \<^verbatim>\<open>" Count "\<close>, splits it at white space, and maps each axis that
  occurs in front of the first colon of a token to the numeric value of the rest of
  the last such token, or to null when that text is not a number: the axis is then
  present in the mapping, with a null value, overriding any earlier value, and no
  error is raised. An axis without a token is absent. The reply
  \<^verbatim>\<open>X:1.50 Y:2.00 Z:0.00 U:0.00 Count 0 0 0 0\<close> parses to X 1.5, Y 2, Z 0, U 0.
\<close>

theorem parse_position_tokens:
  "parse_position to_float response axis =
     (case filter (\<lambda>t. CHR '':'' \<in> set t \<and> before_first '':'' t = axis)
             (split_whitespace (before_first '' Count '' response)) of
        [] \<Rightarrow> None
      | m # ms \<Rightarrow> Some (to_float (after_first '':'' (last (m # ms))))) \<and>
   (to_float ''1.50'' = Some (Fin (3 / 2)) \<and> to_float ''2.00'' = Some (Fin 2) \<and> to_float ''0.00'' = Some (Fin 0) \<longrightarrow>
      parse_position to_float ''X:1.50 Y:2.00 Z:0.00 U:0.00 Count 0 0 0 0'' =
        [''X'' \<mapsto> Some (Fin (3 / 2)), ''Y'' \<mapsto> Some (Fin 2), ''Z'' \<mapsto> Some (Fin 0), ''U'' \<mapsto> Some (Fin 0)])"
proof (intro conjI impI)
  show "parse_position to_float response axis =
     (case filter (\<lambda>t. CHR '':'' \<in> set t \<and> before_first '':'' t = axis)
             (split_whitespace (before_first '' Count '' response)) of
        [] \<Rightarrow> None
      | m # ms \<Rightarrow> Some (to_float (after_first '':'' (last (m # ms)))))"
    by (simp add: parse_position_def parse_elements_lookup)
next
  assume "to_float ''1.50'' = Some (Fin (3 / 2)) \<and> to_float ''2.00'' = Some (Fin 2) \<and> to_float ''0.00'' = Some (Fin 0)"
  then show "parse_position to_float ''X:1.50 Y:2.00 Z:0.00 U:0.00 Count 0 0 0 0'' =
        [''X'' \<mapsto> Some (Fin (3 / 2)), ''Y'' \<mapsto> Some (Fin 2), ''Z'' \<mapsto> Some (Fin 0), ''U'' \<mapsto> Some (Fin 0)]"
    by (simp add: parse_position_def split_whitespace_def whitespace_def)
qed

theorem parse_position_tokens_witness:
  "parse_position bench_float ''X:1.50 Y:2.00 Z:0.00 U:0.00 Count 0 0 0 0'' =
     [''X'' \<mapsto> Some (Fin (3 / 2)), ''Y'' \<mapsto> Some (Fin 2), ''Z'' \<mapsto> Some (Fin 0), ''U'' \<mapsto> Some (Fin 0)] \<and>
   parse_position bench_float ''X:1.50 X:abc Y:2.00 Count 0 0 0 0'' ''X'' = Some None"
proof -
  have "parse_position bench_float ''X:1.50 Y:2.00 Z:0.00 U:0.00 Count 0 0 0 0'' =
     [''X'' \<mapsto> Some (Fin (3 / 2)), ''Y'' \<mapsto> Some (Fin 2), ''Z'' \<mapsto> Some (Fin 0), ''U'' \<mapsto> Some (Fin 0)]"
    using parse_position_tokens [of bench_float, THEN conjunct2]
    by (simp add: bench_float_def)
  moreover have "parse_position bench_float ''X:1.50 X:abc Y:2.00 Count 0 0 0 0'' ''X'' = Some None"
    using parse_position_tokens
      [of bench_float "''X:1.50 X:abc Y:2.00 Count 0 0 0 0''" "''X''", THEN conjunct1]
    by (simp add: bench_float_def split_whitespace_def whitespace_def)
  ultimately show ?thesis by simp
qed

end
